theory Spec2Isabelle
  imports Complex_Main "HOL-Library.Word"
begin

section \<open>Data model of Beispielprojekt.cpp\<close>

text \<open>
  The program is a small side-scroller: one \<open>Player\<close>, a list of static \<open>Platform\<close>s, a list
  of \<open>Obstacle\<close>s and at most one temporary platform, all advanced by \<open>GameWindow::update\<close>
  once per frame.

  Numbers. Every coordinate and velocity of the source is a C++ \<open>double\<close>. They are modelled
  as \<open>real\<close>, so the theorems are about exact arithmetic; rounding, infinities and NaN are
  outside this model. The constants of the program (0.5, 3, 10, 50, 2, 15, 100 and the level
  layout) are multiples of one half, and the last section proves that in every state the
  game reaches the coordinates and velocities are multiples of one half of magnitude at most
  2000: on such values \<open>double\<close> addition, subtraction and comparison are exact, so there the
  program computes what the model computes. \<open>jumps_available\<close> is a C++ \<open>int\<close>; it is only
  decremented under the guard \<open>jumps_available > 0\<close> and otherwise assigned 2, so it cannot
  wrap and is modelled as \<open>int\<close>. The timestamps are \<open>unsigned long\<close> and are subtracted
  with wrap-around; they are 64-bit words here (LP64), and no proof uses more of the width
  than that it holds 5000.
\<close>

text \<open>\<open>class Objekt\<close> (lines 8-16): the four public doubles.\<close>

record Objekt =
  x :: real
  y :: real
  width :: real
  height :: real

text \<open>The two \<open>Gosu::Color\<close> values the program gives to platforms.\<close>

datatype Color = GRAY | AQUA

text \<open>\<open>class Platform : public Objekt\<close> (lines 19-28).\<close>

record Platform = Objekt +
  color :: Color

text \<open>\<open>class Obstacle : public Objekt\<close> (lines 31-42) adds no field; its constructor makes a
  square of side \<open>size\<close>.\<close>

type_synonym Obstacle = Objekt

definition new_Obstacle :: "real \<Rightarrow> real \<Rightarrow> real \<Rightarrow> Obstacle" where
  "new_Obstacle ox oy sz = \<lparr>x = ox, y = oy, width = sz, height = sz\<rparr>"

definition new_Platform :: "real \<Rightarrow> real \<Rightarrow> real \<Rightarrow> real \<Rightarrow> Color \<Rightarrow> Platform" where
  "new_Platform px py w h c = \<lparr>x = px, y = py, width = w, height = h, color = c\<rparr>"

text \<open>\<open>class Player : public Objekt\<close> (lines 45-58). The two pointers \<open>world_width\<close> and
  \<open>world_height\<close> point to constants of the window and are read only, so the fields hold the
  values pointed to.\<close>

record Player = Objekt +
  velocity_x :: real
  velocity_y :: real
  on_ground :: bool
  world_width :: real
  world_height :: real
  jumps_available :: int
  spawn_x :: real
  spawn_y :: real
  jump_in_progress :: bool

definition new_Player :: "real \<Rightarrow> real \<Rightarrow> real \<Rightarrow> real \<Rightarrow> Player" where
  "new_Player px py ww wh =
     \<lparr>x = px, y = py, width = 50, height = 50,
      velocity_x = 0, velocity_y = 0, on_ground = False,
      world_width = ww, world_height = wh, jumps_available = 2,
      spawn_x = px, spawn_y = py, jump_in_progress = False\<rparr>"

text \<open>The part of \<open>Gosu::Input\<close> the program reads: \<open>input.down(k)\<close> for four keys.\<close>

record Input =
  KB_LEFT :: bool
  KB_RIGHT :: bool
  KB_UP :: bool
  KB_DOWN :: bool

section \<open>\<open>Player::update\<close> (lines 60-123)\<close>

definition gravity :: real where "gravity = 0.5"
definition jump_strength :: real where "jump_strength = - 10"
definition move_speed :: real where "move_speed = 3"

text \<open>Lines 69-71: the horizontal velocity is recomputed from the two direction keys.\<close>

definition move_step :: "Input \<Rightarrow> Player \<Rightarrow> Player" where
  "move_step inp p =
     (let p1 = p\<lparr>velocity_x := 0\<rparr>;
          p2 = (if KB_LEFT inp then p1\<lparr>velocity_x := velocity_x p1 - move_speed\<rparr> else p1)
      in (if KB_RIGHT inp then p2\<lparr>velocity_x := velocity_x p2 + move_speed\<rparr> else p2))"

text \<open>Lines 74-84: the double jump with its latch.\<close>

definition jump_step :: "Input \<Rightarrow> Player \<Rightarrow> Player" where
  "jump_step inp p =
     (if KB_UP inp then
        (if jumps_available p > 0 \<and> \<not> jump_in_progress p
         then p\<lparr>velocity_y := jump_strength, on_ground := False,
                jumps_available := jumps_available p - 1, jump_in_progress := True\<rparr>
         else p)
      else p\<lparr>jump_in_progress := False\<rparr>)"

text \<open>Line 86.\<close>

definition gravity_step :: "Player \<Rightarrow> Player" where
  "gravity_step p = p\<lparr>velocity_y := velocity_y p + gravity\<rparr>"

text \<open>Lines 97-105: the loop over \<open>all_platforms\<close>. It reads \<open>width\<close>, \<open>height\<close> and the old
  \<open>y\<close> of the player and the constant \<open>next_x\<close>, and it updates the three variables
  \<open>next_y\<close>, \<open>velocity_y\<close> and \<open>on_any_platform\<close>, which are the triple passed along.\<close>

fun land_on :: "Player \<Rightarrow> real \<Rightarrow> Platform list \<Rightarrow> real \<times> real \<times> bool \<Rightarrow> real \<times> real \<times> bool" where
  "land_on p next_x [] s = s"
| "land_on p next_x (plat # rest) (next_y, vy, on_any_platform) =
     (let within_x = (next_x + width p > x plat \<and> next_x < x plat + width plat);
          falling_onto = (y p + height p \<le> y plat \<and> next_y + height p \<ge> y plat)
      in if within_x \<and> falling_onto \<and> vy \<ge> 0
         then land_on p next_x rest (y plat - height p, 0, True)
         else land_on p next_x rest (next_y, vy, on_any_platform))"

text \<open>Lines 93-95: the static platforms followed by the temporary one, if there is one.\<close>

definition all_platforms_of :: "Platform list \<Rightarrow> Platform option \<Rightarrow> Platform list" where
  "all_platforms_of platforms temp_platform =
     platforms @ (case temp_platform of None \<Rightarrow> [] | Some t \<Rightarrow> [t])"

text \<open>Lines 88-109: tentative position, the loop, and the commit of position and
  \<open>on_ground\<close>.\<close>

definition collide_step :: "Platform list \<Rightarrow> Platform option \<Rightarrow> Player \<Rightarrow> Player" where
  "collide_step platforms temp_platform p =
     (let next_x = x p + velocity_x p;
          next_y = y p + velocity_y p
      in case land_on p next_x (all_platforms_of platforms temp_platform)
                (next_y, velocity_y p, False) of
           (next_y', vy', on_any_platform) \<Rightarrow>
             p\<lparr>x := next_x, y := next_y', velocity_y := vy', on_ground := on_any_platform\<rparr>)"

text \<open>Lines 112-119: the four world-border tests, in the order of the source.\<close>

definition world_borders :: "Player \<Rightarrow> Player" where
  "world_borders p =
     (let p1 = (if x p < 0 then p\<lparr>x := 0\<rparr> else p);
          p2 = (if x p1 + width p1 > world_width p1
                then p1\<lparr>x := world_width p1 - width p1\<rparr> else p1);
          p3 = (if y p2 < 0 then p2\<lparr>y := 0\<rparr> else p2)
      in if y p3 + height p3 > world_height p3
         then p3\<lparr>y := world_height p3 - height p3, velocity_y := 0, on_ground := True\<rparr>
         else p3)"

text \<open>Lines 121-122.\<close>

definition reset_jumps :: "Player \<Rightarrow> Player" where
  "reset_jumps p = (if on_ground p then p\<lparr>jumps_available := 2\<rparr> else p)"

text \<open>The whole method: the six phases in source order.\<close>

definition Player_update :: "Input \<Rightarrow> Platform list \<Rightarrow> Platform option \<Rightarrow> Player \<Rightarrow> Player" where
  "Player_update inp platforms temp_platform p =
     reset_jumps (world_borders (collide_step platforms temp_platform
       (gravity_step (jump_step inp (move_step inp p)))))"

text \<open>\<open>Player::die\<close> (lines 125-131).\<close>

definition die :: "Player \<Rightarrow> Player" where
  "die p = p\<lparr>x := spawn_x p, y := spawn_y p, velocity_x := 0, velocity_y := 0,
             jumps_available := 2\<rparr>"

section \<open>\<open>rects_overlap\<close> (lines 137-142)\<close>

definition rects_overlap :: "'a Objekt_scheme \<Rightarrow> 'b Objekt_scheme \<Rightarrow> bool" where
  "rects_overlap a b \<longleftrightarrow>
     x a < x b + width b \<and>
     x a + width a > x b \<and>
     y a < y b + height b \<and>
     y a + height a > y b"

section \<open>\<open>GameWindow\<close> (lines 144-215)\<close>

type_synonym ulong = "64 word"

text \<open>The fields of the window the update touches. \<open>down_pressed_last_frame\<close> is the
  function-local \<open>static bool\<close> of \<open>update\<close> (line 180): it lives as long as the window.\<close>

record GameWindow =
  platforms :: "Platform list"
  obstacles :: "Obstacle list"
  player :: Player
  temp_platform :: "Platform option"
  temp_platform_created :: ulong
  temp_platform_last_placed :: ulong
  down_pressed_last_frame :: bool

definition platform_cooldown :: ulong where "platform_cooldown = 5000"
definition GameWindow_world_width :: real where "GameWindow_world_width = 2000"
definition GameWindow_world_height :: real where "GameWindow_world_height = 1000"

text \<open>The constructor (lines 157-176) with the member initialisers of lines 149-150.\<close>

definition new_GameWindow :: GameWindow where
  "new_GameWindow =
     \<lparr>platforms =
        [new_Platform 0 950 2000 50 GRAY,
         new_Platform 300 800 250 30 GRAY,
         new_Platform 700 700 250 30 GRAY,
         new_Platform 1300 850 300 25 GRAY,
         new_Platform 1700 600 200 30 GRAY,
         new_Platform 1800 400 120 30 GRAY,
         new_Platform 100 650 180 20 GRAY],
      obstacles =
        [new_Obstacle 500 920 40,
         new_Obstacle 900 670 40,
         new_Obstacle 1350 820 40,
         new_Obstacle 1800 570 40],
      player = new_Player 150 100 GameWindow_world_width GameWindow_world_height,
      temp_platform = None,
      temp_platform_created = 0,
      temp_platform_last_placed = 0,
      down_pressed_last_frame = False\<rparr>"

text \<open>What one call of \<open>GameWindow::update\<close> reads from outside: the keys, and the clock.
  \<open>Gosu::milliseconds()\<close> is called at up to three places of the method (lines 184, 192 and
  203) and may answer differently each time, so a frame carries one reading per place.\<close>

record Frame =
  input :: Input
  ms_cooldown :: ulong
  ms_created :: ulong
  ms_expiry :: ulong

text \<open>Lines 182-200: creation of the temporary platform on a rising edge of KB_DOWN. The
  locals \<open>width\<close> and \<open>height\<close> of the source are \<open>w\<close> and \<open>h\<close> here.\<close>

definition place_temp_platform :: "Frame \<Rightarrow> GameWindow \<Rightarrow> GameWindow" where
  "place_temp_platform f g =
     (if KB_DOWN (input f) then
        (let g1 =
           (if \<not> down_pressed_last_frame g then
              (let on_cooldown =
                     (ms_cooldown f - temp_platform_last_placed g < platform_cooldown)
               in if temp_platform g = None \<and> \<not> on_cooldown then
                    (let w = 100; h = 15;
                         platform_x = x (player g) + width (player g) / 2 - w / 2;
                         platform_y = y (player g) + height (player g) + 2
                     in g\<lparr>temp_platform := Some (new_Platform platform_x platform_y w h AQUA),
                          temp_platform_created := ms_created f,
                          temp_platform_last_placed := ms_created f\<rparr>)
                  else g)
            else g)
         in g1\<lparr>down_pressed_last_frame := True\<rparr>)
      else g\<lparr>down_pressed_last_frame := False\<rparr>)"

text \<open>Lines 203-205: the temporary platform is removed once it is older than 5000 ms.\<close>

definition expire_temp_platform :: "Frame \<Rightarrow> GameWindow \<Rightarrow> GameWindow" where
  "expire_temp_platform f g =
     (if temp_platform g \<noteq> None \<and> ms_expiry f - temp_platform_created g > 5000
      then g\<lparr>temp_platform := None\<rparr> else g)"

text \<open>Lines 210-214: every obstacle is tested against the player as it is at that moment,
  so after a \<open>die\<close> the remaining obstacles are tested against the respawned player.\<close>

fun obstacle_collision :: "Obstacle list \<Rightarrow> Player \<Rightarrow> Player" where
  "obstacle_collision [] p = p"
| "obstacle_collision (obstacle # rest) p =
     obstacle_collision rest (if rects_overlap p obstacle then die p else p)"

text \<open>\<open>GameWindow::update\<close> (lines 178-215).\<close>

definition GameWindow_update :: "Frame \<Rightarrow> GameWindow \<Rightarrow> GameWindow" where
  "GameWindow_update f g =
     (let g1 = place_temp_platform f g;
          g2 = expire_temp_platform f g1;
          p' = Player_update (input f) (platforms g2) (temp_platform g2) (player g2)
      in g2\<lparr>player := obstacle_collision (obstacles g2) p'\<rparr>)"

text \<open>The window after a sequence of frames, oldest first; the states the game can reach are
  \<open>run_frames fs new_GameWindow\<close>.\<close>

fun run_frames :: "Frame list \<Rightarrow> GameWindow \<Rightarrow> GameWindow" where
  "run_frames [] g = g"
| "run_frames (f # fs) g = run_frames fs (GameWindow_update f g)"

section \<open>Predicates and sample inputs used by the theorems\<close>

text \<open>The player as the constructor of the window configures it: a 50 by 50 box in the
  2000 by 1000 world, spawning at (150, 100). No method assigns these fields.\<close>

definition configured :: "Player \<Rightarrow> bool" where
  "configured p \<longleftrightarrow>
     width p = 50 \<and> height p = 50 \<and> world_width p = 2000 \<and> world_height p = 1000 \<and>
     spawn_x p = 150 \<and> spawn_y p = 100"

text \<open>The bounding box of the player lies inside the world rectangle.\<close>

definition in_world :: "Player \<Rightarrow> bool" where
  "in_world p \<longleftrightarrow>
     0 \<le> x p \<and> x p \<le> world_width p - width p \<and>
     0 \<le> y p \<and> y p \<le> world_height p - height p"

definition budget_ok :: "Player \<Rightarrow> bool" where
  "budget_ok p \<longleftrightarrow> 0 \<le> jumps_available p \<and> jumps_available p \<le> 2"

definition player_inv :: "Player \<Rightarrow> bool" where
  "player_inv p \<longleftrightarrow> configured p \<and> in_world p \<and> budget_ok p"

text \<open>The player at the moment the obstacle loop of line 210 starts.\<close>

definition player_before_hazards :: "Frame \<Rightarrow> GameWindow \<Rightarrow> Player" where
  "player_before_hazards f g =
     (let g2 = expire_temp_platform f (place_temp_platform f g)
      in Player_update (input f) (platforms g2) (temp_platform g2) (player g2))"

text \<open>Sample key states and frames.\<close>

definition no_keys :: Input where
  "no_keys = \<lparr>KB_LEFT = False, KB_RIGHT = False, KB_UP = False, KB_DOWN = False\<rparr>"

definition up_key :: Input where
  "up_key = \<lparr>KB_LEFT = False, KB_RIGHT = False, KB_UP = True, KB_DOWN = False\<rparr>"

definition left_up_keys :: Input where
  "left_up_keys = \<lparr>KB_LEFT = True, KB_RIGHT = False, KB_UP = True, KB_DOWN = False\<rparr>"

definition down_key :: Input where
  "down_key = \<lparr>KB_LEFT = False, KB_RIGHT = False, KB_UP = False, KB_DOWN = True\<rparr>"

definition frame_at :: "Input \<Rightarrow> ulong \<Rightarrow> Frame" where
  "frame_at inp t = \<lparr>input = inp, ms_cooldown = t, ms_created = t, ms_expiry = t\<rparr>"

text \<open>The window of the game with the player moved next to the first spike.\<close>

definition window_near_spike :: GameWindow where
  "window_near_spike = new_GameWindow\<lparr>player := (player new_GameWindow)\<lparr>x := 480, y := 880\<rparr>\<rparr>"

text \<open>A player just above the platform at (100, 650) with no jump left.\<close>

definition window_airborne :: GameWindow where
  "window_airborne =
     new_GameWindow\<lparr>player := (player new_GameWindow)\<lparr>y := 599.5, jumps_available := 0\<rparr>\<rparr>"

text \<open>A window whose temporary platform was placed at clock reading 6000.\<close>

definition window_with_platform :: GameWindow where
  "window_with_platform =
     new_GameWindow\<lparr>temp_platform := Some (new_Platform 125 152 100 15 AQUA),
       temp_platform_created := 6000, temp_platform_last_placed := 6000\<rparr>"

text \<open>The test of lines 98-99 for one platform: \<open>within_x\<close> and \<open>falling_onto\<close>, with the
  tentative position as parameters.\<close>

definition can_land :: "Player \<Rightarrow> real \<Rightarrow> real \<Rightarrow> Platform \<Rightarrow> bool" where
  "can_land p next_x next_y plat \<longleftrightarrow>
     next_x + width p > x plat \<and> next_x < x plat + width plat \<and>
     y p + height p \<le> y plat \<and> next_y + height p \<ge> y plat"

text \<open>The player after line 86 of \<open>Player::update\<close> (keys, jump and gravity applied), and the
  player at line 109: after the collision loop and the commit of the tentative position,
  before the world borders.\<close>

definition before_collision :: "Input \<Rightarrow> Player \<Rightarrow> Player" where
  "before_collision inp p = gravity_step (jump_step inp (move_step inp p))"

definition after_collision :: "Input \<Rightarrow> Platform list \<Rightarrow> Platform option \<Rightarrow> Player \<Rightarrow> Player" where
  "after_collision inp ps tp p = collide_step ps tp (before_collision inp p)"

text \<open>The concrete scenario: a player created at (150, 100) in the 2000 by 1000 world, one
  platform (0, 950, 2000, 50), no temporary platform, no key held.\<close>

definition scenario_floor :: Platform where
  "scenario_floor = new_Platform 0 950 2000 50 GRAY"

definition scenario_start :: Player where
  "scenario_start = new_Player 150 100 2000 1000"

definition scenario_tick :: "Player \<Rightarrow> Player" where
  "scenario_tick = Player_update no_keys [scenario_floor] None"

definition scenario_after :: "nat \<Rightarrow> Player" where
  "scenario_after n = (scenario_tick ^^ n) scenario_start"

text \<open>The scenario's player in free fall at height \<open>a\<close> with velocity \<open>v\<close>, and at rest on the
  platform.\<close>

definition falling :: "real \<Rightarrow> real \<Rightarrow> Player" where
  "falling a v = scenario_start\<lparr>y := a, velocity_y := v\<rparr>"

definition resting :: Player where
  "resting = scenario_start\<lparr>y := 900, on_ground := True\<rparr>"

text \<open>Sample players next to the top and the bottom border of the world.\<close>

definition player_near_ceiling :: Player where
  "player_near_ceiling = (player new_GameWindow)\<lparr>y := 3\<rparr>"

definition player_near_floor :: Player where
  "player_near_floor = (player new_GameWindow)\<lparr>y := 940, velocity_y := 30\<rparr>"

text \<open>The tentative position of lines 88-89: position plus the velocity after the key, jump
  and gravity steps.\<close>

definition tentative_x :: "Input \<Rightarrow> Player \<Rightarrow> real" where
  "tentative_x inp p = x p + velocity_x (before_collision inp p)"

definition tentative_y :: "Input \<Rightarrow> Player \<Rightarrow> real" where
  "tentative_y inp p = y p + velocity_y (before_collision inp p)"

text \<open>The game's player falling towards the platform at (100, 650), 5 above its top, and the
  window holding it.\<close>

definition player_above_platform :: Player where
  "player_above_platform = (player new_GameWindow)\<lparr>y := 595, velocity_y := 22\<rparr>"

definition window_above_platform :: GameWindow where
  "window_above_platform = new_GameWindow\<lparr>player := player_above_platform\<rparr>"





text \<open>The test of lines 74-75 under which the jump branch runs, and the number of calls of a
  sequence in which it runs.\<close>

definition jump_fires :: "Input \<Rightarrow> Player \<Rightarrow> bool" where
  "jump_fires inp p \<longleftrightarrow> KB_UP inp \<and> jumps_available p > 0 \<and> \<not> jump_in_progress p"



text \<open>The game's player in free fall from its spawn point, and the window holding it.\<close>

definition player_falling :: "real \<Rightarrow> real \<Rightarrow> Player" where
  "player_falling a v = (player new_GameWindow)\<lparr>y := a, velocity_y := v\<rparr>"

definition window_falling :: "real \<Rightarrow> real \<Rightarrow> GameWindow" where
  "window_falling a v = new_GameWindow\<lparr>player := player_falling a v\<rparr>"

text \<open>Values that are a multiple of one half. A \<open>double\<close> holds every such value of
  magnitude below \<open>2 ^ 52\<close> exactly, and sums and differences of two of them as well.\<close>

definition half_integer :: "real \<Rightarrow> bool" where
  "half_integer r \<longleftrightarrow> 2 * r \<in> \<int>"

text \<open>The player's coordinates and velocities are multiples of one half, the velocities are
  bounded, and a falling player has fallen at least the distance its velocity needs to
  build up.\<close>

definition exact_player :: "Player \<Rightarrow> bool" where
  "exact_player p \<longleftrightarrow>
     half_integer (x p) \<and> half_integer (y p) \<and>
     half_integer (velocity_x p) \<and> half_integer (velocity_y p) \<and>
     \<bar>velocity_x p\<bar> \<le> 3 \<and> - 10 \<le> velocity_y p \<and>
     (0 < velocity_y p \<longrightarrow> velocity_y p * (2 * velocity_y p + 1) \<le> 2 * y p)"

definition exact_window :: "GameWindow \<Rightarrow> bool" where
  "exact_window g \<longleftrightarrow>
     player_inv (player g) \<and> exact_player (player g) \<and>
     platforms g = platforms new_GameWindow \<and>
     (\<forall>t. temp_platform g = Some t \<longrightarrow>
        half_integer (x t) \<and> half_integer (y t) \<and> width t = 100 \<and> height t = 15 \<and>
        - 25 \<le> x t \<and> x t \<le> 1925 \<and> 52 \<le> y t \<and> y t \<le> 1002)"

section \<open>Properties of the overlap test\<close>

text \<open>
  Claim C9. For all rectangles \<open>a\<close> and \<open>b\<close>, \<open>rects_overlap a b\<close> is true exactly when
  \<open>a.x < b.x + b.width\<close>, \<open>a.x + a.width > b.x\<close>, \<open>a.y < b.y + b.height\<close> and
  \<open>a.y + a.height > b.y\<close>, with strict comparisons on both axes. In particular two
  rectangles that only touch (the right edge of one on the left edge of the other, or the
  bottom edge of one on the top edge of the other, which includes meeting at a corner) do not
  overlap.
\<close>

theorem rects_overlap_strict:
  fixes a :: "'a Objekt_scheme" and b :: "'b Objekt_scheme"
  shows "(rects_overlap a b \<longleftrightarrow>
            x a < x b + width b \<and> x a + width a > x b \<and>
            y a < y b + height b \<and> y a + height a > y b)
       \<and> (x a + width a = x b \<longrightarrow> \<not> rects_overlap a b)
       \<and> (x b + width b = x a \<longrightarrow> \<not> rects_overlap a b)
       \<and> (y a + height a = y b \<longrightarrow> \<not> rects_overlap a b)
       \<and> (y b + height b = y a \<longrightarrow> \<not> rects_overlap a b)"
  by (auto simp: rects_overlap_def)

theorem rects_overlap_strict_witness:
  "x (new_Obstacle 0 0 40) + width (new_Obstacle 0 0 40) = x (new_Obstacle 40 40 40)
   \<and> y (new_Obstacle 0 0 40) + height (new_Obstacle 0 0 40) = y (new_Obstacle 40 40 40)
   \<and> \<not> rects_overlap (new_Obstacle 0 0 40) (new_Obstacle 40 40 40)
   \<and> rects_overlap (new_Obstacle 0 0 40) (new_Obstacle 39 39 40)"
  using rects_overlap_strict [of "new_Obstacle 0 0 40" "new_Obstacle 40 40 40"]
        rects_overlap_strict [of "new_Obstacle 0 0 40" "new_Obstacle 39 39 40"]
  by (simp add: new_Obstacle_def)

section \<open>What each phase leaves alone\<close>

lemma collide_step_fields:
  "width (collide_step ps tp p) = width p"
  "height (collide_step ps tp p) = height p"
  "world_width (collide_step ps tp p) = world_width p"
  "world_height (collide_step ps tp p) = world_height p"
  "spawn_x (collide_step ps tp p) = spawn_x p"
  "spawn_y (collide_step ps tp p) = spawn_y p"
  "jumps_available (collide_step ps tp p) = jumps_available p"
  "jump_in_progress (collide_step ps tp p) = jump_in_progress p"
  "velocity_x (collide_step ps tp p) = velocity_x p"
  by (simp_all add: collide_step_def Let_def split: prod.splits)

lemma pre_fields:
  "width (gravity_step (jump_step inp (move_step inp p))) = width p"
  "height (gravity_step (jump_step inp (move_step inp p))) = height p"
  "world_width (gravity_step (jump_step inp (move_step inp p))) = world_width p"
  "world_height (gravity_step (jump_step inp (move_step inp p))) = world_height p"
  "spawn_x (gravity_step (jump_step inp (move_step inp p))) = spawn_x p"
  "spawn_y (gravity_step (jump_step inp (move_step inp p))) = spawn_y p"
  "x (gravity_step (jump_step inp (move_step inp p))) = x p"
  "y (gravity_step (jump_step inp (move_step inp p))) = y p"
  by (simp_all add: gravity_step_def jump_step_def move_step_def Let_def)

lemma world_borders_fields:
  "width (world_borders p) = width p"
  "height (world_borders p) = height p"
  "world_width (world_borders p) = world_width p"
  "world_height (world_borders p) = world_height p"
  "spawn_x (world_borders p) = spawn_x p"
  "spawn_y (world_borders p) = spawn_y p"
  "jumps_available (world_borders p) = jumps_available p"
  "jump_in_progress (world_borders p) = jump_in_progress p"
  "velocity_x (world_borders p) = velocity_x p"
  by (simp_all add: world_borders_def Let_def)

lemma reset_jumps_fields:
  "x (reset_jumps p) = x p"
  "y (reset_jumps p) = y p"
  "width (reset_jumps p) = width p"
  "height (reset_jumps p) = height p"
  "world_width (reset_jumps p) = world_width p"
  "world_height (reset_jumps p) = world_height p"
  "spawn_x (reset_jumps p) = spawn_x p"
  "spawn_y (reset_jumps p) = spawn_y p"
  "velocity_x (reset_jumps p) = velocity_x p"
  "velocity_y (reset_jumps p) = velocity_y p"
  "on_ground (reset_jumps p) = on_ground p"
  "jump_in_progress (reset_jumps p) = jump_in_progress p"
  by (simp_all add: reset_jumps_def)

section \<open>The hazard loop\<close>

lemma die_idem: "die (die p) = die p"
  by (simp add: die_def)

text \<open>The loop calls \<open>die\<close> as soon as one obstacle overlaps; a second call changes
  nothing, so the loop is one conditional \<open>die\<close>.\<close>

lemma obstacle_collision_eq:
  "obstacle_collision os p = (if \<exists>ob \<in> set os. rects_overlap p ob then die p else p)"
  by (induction os arbitrary: p) (auto simp: die_idem)

lemma obstacle_collision_fields:
  "on_ground (obstacle_collision os p) = on_ground p"
  "jump_in_progress (obstacle_collision os p) = jump_in_progress p"
  "width (obstacle_collision os p) = width p"
  "height (obstacle_collision os p) = height p"
  "world_width (obstacle_collision os p) = world_width p"
  "world_height (obstacle_collision os p) = world_height p"
  "spawn_x (obstacle_collision os p) = spawn_x p"
  "spawn_y (obstacle_collision os p) = spawn_y p"
  by (simp_all add: obstacle_collision_eq die_def)

lemma player_GameWindow_update:
  "player (GameWindow_update f g) = obstacle_collision (obstacles g) (player_before_hazards f g)"
  by (simp add: GameWindow_update_def player_before_hazards_def Let_def
      expire_temp_platform_def place_temp_platform_def)

lemma player_before_hazards_eq:
  "player_before_hazards f g =
     Player_update (input f) (platforms g)
       (temp_platform (expire_temp_platform f (place_temp_platform f g))) (player g)"
  by (simp add: player_before_hazards_def Let_def expire_temp_platform_def
      place_temp_platform_def)

lemma Player_update_spawn:
  "spawn_x (Player_update inp ps tp p) = spawn_x p"
  "spawn_y (Player_update inp ps tp p) = spawn_y p"
  by (simp_all add: Player_update_def reset_jumps_fields world_borders_fields
      collide_step_fields pre_fields)

text \<open>
  Claim C6. If, when the hazard check of a frame starts, the box of the player strictly
  overlaps some obstacle (\<open>rects_overlap\<close>), then at the end of that same frame the player is
  at its spawn point, both velocity components are 0 and \<open>jumps_available\<close> is 2. This holds
  for the obstacle loop on any player and any list of obstacles, and for
  \<open>GameWindow::update\<close> on any window.
\<close>

theorem hazard_respawn:
  "((\<exists>ob \<in> set os. rects_overlap p ob) \<longrightarrow>
      x (obstacle_collision os p) = spawn_x p \<and> y (obstacle_collision os p) = spawn_y p \<and>
      velocity_x (obstacle_collision os p) = 0 \<and> velocity_y (obstacle_collision os p) = 0 \<and>
      jumps_available (obstacle_collision os p) = 2)
   \<and> ((\<exists>ob \<in> set (obstacles g). rects_overlap (player_before_hazards f g) ob) \<longrightarrow>
      x (player (GameWindow_update f g)) = spawn_x (player g) \<and>
      y (player (GameWindow_update f g)) = spawn_y (player g) \<and>
      velocity_x (player (GameWindow_update f g)) = 0 \<and>
      velocity_y (player (GameWindow_update f g)) = 0 \<and>
      jumps_available (player (GameWindow_update f g)) = 2)"
proof -
  have "spawn_x (player_before_hazards f g) = spawn_x (player g)"
    "spawn_y (player_before_hazards f g) = spawn_y (player g)"
    by (simp_all add: player_before_hazards_eq Player_update_spawn)
  then show ?thesis
    by (simp add: player_GameWindow_update obstacle_collision_eq die_def)
qed

theorem hazard_respawn_witness:
  "rects_overlap (player_before_hazards (frame_at no_keys 0) window_near_spike)
     (new_Obstacle 500 920 40)
   \<and> new_Obstacle 500 920 40 \<in> set (obstacles window_near_spike)
   \<and> x (player (GameWindow_update (frame_at no_keys 0) window_near_spike)) = 150
   \<and> y (player (GameWindow_update (frame_at no_keys 0) window_near_spike)) = 100
   \<and> velocity_x (player (GameWindow_update (frame_at no_keys 0) window_near_spike)) = 0
   \<and> velocity_y (player (GameWindow_update (frame_at no_keys 0) window_near_spike)) = 0
   \<and> jumps_available (player (GameWindow_update (frame_at no_keys 0) window_near_spike)) = 2"
proof -
  have h: "rects_overlap (player_before_hazards (frame_at no_keys 0) window_near_spike)
     (new_Obstacle 500 920 40)"
    by code_simp
  have m: "new_Obstacle 500 920 40 \<in> set (obstacles window_near_spike)"
    by (simp add: window_near_spike_def new_GameWindow_def)
  have s: "spawn_x (player window_near_spike) = 150" "spawn_y (player window_near_spike) = 100"
    by (simp_all add: window_near_spike_def new_GameWindow_def new_Player_def)
  from h m have "\<exists>ob \<in> set (obstacles window_near_spike).
      rects_overlap (player_before_hazards (frame_at no_keys 0) window_near_spike) ob"
    by blast
  with hazard_respawn [of "obstacles window_near_spike"
      "player_before_hazards (frame_at no_keys 0) window_near_spike"
      window_near_spike "frame_at no_keys 0"]
  show ?thesis using h m s by simp
qed

section \<open>Invariants of the reachable states\<close>

lemma world_borders_in_world:
  "width p \<le> world_width p \<Longrightarrow> height p \<le> world_height p \<Longrightarrow> in_world (world_borders p)"
  by (simp add: world_borders_def in_world_def Let_def)

lemma Player_update_in_world:
  assumes "width p \<le> world_width p" "height p \<le> world_height p"
  shows "in_world (Player_update inp ps tp p)"
proof -
  let ?q = "collide_step ps tp (gravity_step (jump_step inp (move_step inp p)))"
  have "width ?q \<le> world_width ?q" "height ?q \<le> world_height ?q"
    using assms by (simp_all add: collide_step_fields pre_fields)
  then have "in_world (world_borders ?q)" by (rule world_borders_in_world)
  then show ?thesis
    by (simp add: Player_update_def in_world_def reset_jumps_fields)
qed

lemma Player_update_configured:
  "configured p \<Longrightarrow> configured (Player_update inp ps tp p)"
  by (simp add: configured_def Player_update_def reset_jumps_fields world_borders_fields
      collide_step_fields pre_fields)

lemma jump_step_budget: "budget_ok p \<Longrightarrow> budget_ok (jump_step inp p)"
  by (auto simp: budget_ok_def jump_step_def)

lemma reset_jumps_budget: "budget_ok p \<Longrightarrow> budget_ok (reset_jumps p)"
  by (simp add: budget_ok_def reset_jumps_def)

lemma die_budget: "budget_ok (die p)"
  by (simp add: budget_ok_def die_def)

lemma Player_update_budget:
  assumes "budget_ok p" shows "budget_ok (Player_update inp ps tp p)"
proof -
  have "budget_ok (jump_step inp (move_step inp p))"
    using assms by (intro jump_step_budget) (simp add: budget_ok_def move_step_def Let_def)
  then have "budget_ok (world_borders (collide_step ps tp
      (gravity_step (jump_step inp (move_step inp p)))))"
    by (simp add: budget_ok_def world_borders_fields collide_step_fields gravity_step_def)
  then show ?thesis unfolding Player_update_def by (rule reset_jumps_budget)
qed

lemma obstacle_collision_budget: "budget_ok p \<Longrightarrow> budget_ok (obstacle_collision os p)"
  by (simp add: obstacle_collision_eq die_budget)

lemma obstacle_collision_in_world:
  "in_world p \<Longrightarrow> configured p \<Longrightarrow> in_world (obstacle_collision os p)"
  by (simp add: obstacle_collision_eq in_world_def configured_def die_def)

lemma obstacle_collision_configured:
  "configured p \<Longrightarrow> configured (obstacle_collision os p)"
  by (simp add: configured_def obstacle_collision_fields)

lemma GameWindow_update_inv:
  assumes "player_inv (player g)" shows "player_inv (player (GameWindow_update f g))"
proof -
  let ?q = "player_before_hazards f g"
  from assms have c: "configured (player g)" and b: "budget_ok (player g)"
    by (simp_all add: player_inv_def)
  from c have "width (player g) \<le> world_width (player g)"
    "height (player g) \<le> world_height (player g)"
    by (simp_all add: configured_def)
  then have "in_world ?q"
    unfolding player_before_hazards_eq by (rule Player_update_in_world)
  moreover have "configured ?q"
    unfolding player_before_hazards_eq using c by (rule Player_update_configured)
  moreover have "budget_ok ?q"
    unfolding player_before_hazards_eq using b by (rule Player_update_budget)
  ultimately show ?thesis
    by (simp add: player_inv_def player_GameWindow_update obstacle_collision_budget
        obstacle_collision_in_world obstacle_collision_configured)
qed

lemma new_GameWindow_inv: "player_inv (player new_GameWindow)"
  by (simp add: player_inv_def configured_def in_world_def budget_ok_def new_GameWindow_def
      new_Player_def GameWindow_world_width_def GameWindow_world_height_def)

lemma run_frames_inv: "player_inv (player g) \<Longrightarrow> player_inv (player (run_frames fs g))"
  by (induction fs arbitrary: g) (simp_all add: GameWindow_update_inv)

lemma reachable_inv: "player_inv (player (run_frames fs new_GameWindow))"
  by (rule run_frames_inv [OF new_GameWindow_inv])

text \<open>
  Claim C2. After every frame (the update of the player followed by the hazard check) the
  box of the player lies inside the world: \<open>0 \<le> x \<le> world_width - width\<close> and
  \<open>0 \<le> y \<le> world_height - height\<close>. This holds in every state the game reaches from its
  constructor, for every sequence of frames, with the player 50 by 50 and the world
  2000 by 1000.
\<close>

theorem actor_stays_in_world:
  "0 \<le> x (player (run_frames fs new_GameWindow))
   \<and> x (player (run_frames fs new_GameWindow))
        \<le> GameWindow_world_width - width (player (run_frames fs new_GameWindow))
   \<and> 0 \<le> y (player (run_frames fs new_GameWindow))
   \<and> y (player (run_frames fs new_GameWindow))
        \<le> GameWindow_world_height - height (player (run_frames fs new_GameWindow))
   \<and> width (player (run_frames fs new_GameWindow)) = 50
   \<and> height (player (run_frames fs new_GameWindow)) = 50
   \<and> GameWindow_world_width = 2000 \<and> GameWindow_world_height = 1000"
  using reachable_inv [of fs]
  by (simp add: player_inv_def configured_def in_world_def
      GameWindow_world_width_def GameWindow_world_height_def)

theorem actor_stays_in_world_witness:
  "x (player (run_frames [frame_at left_up_keys 0, frame_at left_up_keys 16] new_GameWindow)) = 144
   \<and> y (player (run_frames [frame_at left_up_keys 0, frame_at left_up_keys 16] new_GameWindow)) = 81.5
   \<and> (0::real) \<le> 144 \<and> (144::real) \<le> 2000 - 50 \<and> (0::real) \<le> 81.5 \<and> (81.5::real) \<le> 1000 - 50"
proof -
  have e: "x (player (run_frames [frame_at left_up_keys 0, frame_at left_up_keys 16] new_GameWindow)) = 144"
    "y (player (run_frames [frame_at left_up_keys 0, frame_at left_up_keys 16] new_GameWindow)) = 81.5"
    by code_simp+
  from actor_stays_in_world [of "[frame_at left_up_keys 0, frame_at left_up_keys 16]"]
  show ?thesis unfolding e by simp
qed

text \<open>
  Claim C3. \<open>0 \<le> jumps_available \<le> 2\<close> in every state the game reaches from its initial value
  2, for every sequence of frames and inputs; and each path that assigns the counter keeps
  the bounds: the guarded decrement in the jump step, the reset when grounded, the reset in
  \<open>die\<close>, and so the whole \<open>Player::update\<close>.
\<close>

theorem jump_budget_bounds:
  "0 \<le> jumps_available (player (run_frames fs new_GameWindow))
   \<and> jumps_available (player (run_frames fs new_GameWindow)) \<le> 2
   \<and> jumps_available (player new_GameWindow) = 2
   \<and> (0 \<le> jumps_available p \<and> jumps_available p \<le> 2 \<longrightarrow>
        0 \<le> jumps_available (jump_step inp p) \<and> jumps_available (jump_step inp p) \<le> 2
      \<and> 0 \<le> jumps_available (reset_jumps p) \<and> jumps_available (reset_jumps p) \<le> 2
      \<and> 0 \<le> jumps_available (Player_update inp ps tp p)
      \<and> jumps_available (Player_update inp ps tp p) \<le> 2)
   \<and> jumps_available (die p) = 2"
  using reachable_inv [of fs] jump_step_budget [of p inp] reset_jumps_budget [of p]
    Player_update_budget [of p inp ps tp]
  by (simp add: player_inv_def budget_ok_def die_def new_GameWindow_def new_Player_def)

theorem jump_budget_bounds_witness:
  "jumps_available (player (run_frames [frame_at up_key 0, frame_at no_keys 16, frame_at up_key 32]
       new_GameWindow)) = 0
   \<and> jumps_available (player new_GameWindow) = 2
   \<and> jumps_available (jump_step up_key (player new_GameWindow)) = 1
   \<and> jumps_available (reset_jumps (player new_GameWindow)) = 2
   \<and> jumps_available (Player_update up_key [] None (player new_GameWindow)) = 1"
proof -
  have e: "jumps_available (player (run_frames
       [frame_at up_key 0, frame_at no_keys 16, frame_at up_key 32] new_GameWindow)) = 0"
    "jumps_available (player new_GameWindow) = 2"
    "jumps_available (jump_step up_key (player new_GameWindow)) = 1"
    "jumps_available (reset_jumps (player new_GameWindow)) = 2"
    "jumps_available (Player_update up_key [] None (player new_GameWindow)) = 1"
    by code_simp+
  from jump_budget_bounds [of "[frame_at up_key 0, frame_at no_keys 16, frame_at up_key 32]"
      "player new_GameWindow" up_key "[]" None]
  show ?thesis unfolding e by simp
qed

text \<open>
  Claim C4. At the end of any frame whose update leaves \<open>on_ground\<close> true, \<open>jumps_available\<close>
  is 2. This holds for \<open>Player::update\<close> alone and for the whole \<open>GameWindow::update\<close> from
  any window, hence along every sequence of frames; in particular after a frame in which
  \<open>on_ground\<close> goes from false to true the counter is 2 whatever it was before.
\<close>

theorem grounded_restores_budget:
  "(on_ground (Player_update inp ps tp p) \<longrightarrow> jumps_available (Player_update inp ps tp p) = 2)
   \<and> (on_ground (player (GameWindow_update f g)) \<longrightarrow>
        jumps_available (player (GameWindow_update f g)) = 2)"
proof -
  have a: "on_ground (Player_update i qs t q) \<longrightarrow> jumps_available (Player_update i qs t q) = 2"
    for i qs t q
    by (simp add: Player_update_def reset_jumps_def)
  have b: "on_ground (player (GameWindow_update f' g')) \<longrightarrow>
      jumps_available (player (GameWindow_update f' g')) = 2" for f' g'
    using a [of "input f'" "platforms g'"
        "temp_platform (expire_temp_platform f' (place_temp_platform f' g'))" "player g'"]
    by (simp add: player_GameWindow_update obstacle_collision_eq die_def
        player_before_hazards_eq)
  show ?thesis using a b by blast
qed

theorem grounded_restores_budget_witness:
  "\<not> on_ground (player window_airborne)
   \<and> jumps_available (player window_airborne) = 0
   \<and> on_ground (player (GameWindow_update (frame_at no_keys 0) window_airborne))
   \<and> jumps_available (player (GameWindow_update (frame_at no_keys 0) window_airborne)) = 2
   \<and> on_ground (Player_update no_keys (platforms new_GameWindow) None (player window_airborne))
   \<and> jumps_available
        (Player_update no_keys (platforms new_GameWindow) None (player window_airborne)) = 2"
proof -
  have e: "\<not> on_ground (player window_airborne)"
    "jumps_available (player window_airborne) = 0"
    "on_ground (player (GameWindow_update (frame_at no_keys 0) window_airborne))"
    "on_ground (Player_update no_keys (platforms new_GameWindow) None (player window_airborne))"
    by code_simp+
  from grounded_restores_budget [of no_keys "platforms new_GameWindow" None
      "player window_airborne" "frame_at no_keys 0" window_airborne]
  show ?thesis using e by simp
qed

section \<open>The temporary platform\<close>

lemma place_temp_platform_create:
  assumes "KB_DOWN (input f)" "\<not> down_pressed_last_frame g" "temp_platform g = None"
    "platform_cooldown \<le> ms_cooldown f - temp_platform_last_placed g"
  shows "place_temp_platform f g =
     g\<lparr>temp_platform := Some \<lparr>x = x (player g) + width (player g) / 2 - 100 / 2,
                               y = y (player g) + height (player g) + 2,
                               width = 100, height = 15, color = AQUA\<rparr>,
       temp_platform_created := ms_created f,
       temp_platform_last_placed := ms_created f,
       down_pressed_last_frame := True\<rparr>"
  using assms by (simp add: place_temp_platform_def Let_def new_Platform_def not_less)

lemma place_temp_platform_noop:
  assumes "\<not> (KB_DOWN (input f) \<and> \<not> down_pressed_last_frame g \<and> temp_platform g = None \<and>
    platform_cooldown \<le> ms_cooldown f - temp_platform_last_placed g)"
  shows "place_temp_platform f g = g\<lparr>down_pressed_last_frame := KB_DOWN (input f)\<rparr>"
  using assms by (auto simp add: place_temp_platform_def Let_def not_less)

text \<open>While the clock has not wrapped since the last placement, the unsigned difference is
  the number of milliseconds elapsed.\<close>

lemma elapsed_unat:
  fixes now last :: ulong
  assumes "unat last \<le> unat now"
  shows "platform_cooldown \<le> now - last \<longleftrightarrow> 5000 \<le> unat now - unat last"
proof -
  from assms have "last \<le> now" by (simp add: word_le_nat_alt)
  then have "unat (now - last) = unat now - unat last" by (rule unat_sub)
  then show ?thesis by (simp add: platform_cooldown_def word_le_nat_alt)
qed

lemma GameWindow_update_temp:
  "temp_platform (GameWindow_update f g) =
     temp_platform (expire_temp_platform f (place_temp_platform f g))"
  "temp_platform_created (GameWindow_update f g) =
     temp_platform_created (place_temp_platform f g)"
  "temp_platform_last_placed (GameWindow_update f g) =
     temp_platform_last_placed (place_temp_platform f g)"
  "platforms (GameWindow_update f g) = platforms g"
  "obstacles (GameWindow_update f g) = obstacles g"
  by (simp_all add: GameWindow_update_def Let_def expire_temp_platform_def
      place_temp_platform_def)

lemma run_frames_platforms: "platforms (run_frames fs g) = platforms g"
  by (induction fs arbitrary: g) (simp_all add: GameWindow_update_temp)

text \<open>
  Claim C7. At most one temporary platform exists at any time: in every reachable state the
  platforms handed to the player are the static ones and at most one more. While a temporary
  platform exists, the creation step of a frame (whatever the keys, so also on a rising edge
  of the create key) leaves that platform, its creation timestamp and the last-placed
  timestamp as they are; after the whole frame the platform is the same one or has expired,
  and the creation timestamp is unchanged, so its remaining lifetime is not reset.
\<close>

theorem one_temp_platform:
  "(temp_platform g = Some t \<longrightarrow>
      temp_platform (place_temp_platform f g) = Some t
    \<and> temp_platform_created (place_temp_platform f g) = temp_platform_created g
    \<and> temp_platform_last_placed (place_temp_platform f g) = temp_platform_last_placed g
    \<and> (temp_platform (GameWindow_update f g) = Some t
         \<or> temp_platform (GameWindow_update f g) = None)
    \<and> temp_platform_created (GameWindow_update f g) = temp_platform_created g
    \<and> temp_platform_last_placed (GameWindow_update f g) = temp_platform_last_placed g)
   \<and> length (all_platforms_of (platforms (run_frames fs new_GameWindow))
                (temp_platform (run_frames fs new_GameWindow)))
        \<le> length (platforms new_GameWindow) + 1"
proof -
  have "temp_platform g = Some t \<Longrightarrow>
     place_temp_platform f g = g\<lparr>down_pressed_last_frame := KB_DOWN (input f)\<rparr>"
    by (rule place_temp_platform_noop) simp
  then show ?thesis
    by (auto simp: GameWindow_update_temp expire_temp_platform_def run_frames_platforms
        all_platforms_of_def split: option.splits)
qed

theorem one_temp_platform_witness:
  "temp_platform window_with_platform = Some (new_Platform 125 152 100 15 AQUA)
   \<and> KB_DOWN (input (frame_at down_key 11000))
   \<and> \<not> down_pressed_last_frame window_with_platform
   \<and> temp_platform (place_temp_platform (frame_at down_key 11000) window_with_platform)
       = Some (new_Platform 125 152 100 15 AQUA)
   \<and> temp_platform (GameWindow_update (frame_at down_key 11000) window_with_platform)
       = Some (new_Platform 125 152 100 15 AQUA)
   \<and> temp_platform_created (GameWindow_update (frame_at down_key 11000) window_with_platform)
       = 6000
   \<and> length (all_platforms_of (platforms (run_frames [frame_at down_key 6000] new_GameWindow))
                (temp_platform (run_frames [frame_at down_key 6000] new_GameWindow))) = 8"
proof -
  have e: "temp_platform window_with_platform = Some (new_Platform 125 152 100 15 AQUA)"
    "KB_DOWN (input (frame_at down_key 11000))"
    "\<not> down_pressed_last_frame window_with_platform"
    "temp_platform (GameWindow_update (frame_at down_key 11000) window_with_platform)
       = Some (new_Platform 125 152 100 15 AQUA)"
    "temp_platform_created window_with_platform = 6000"
    "length (all_platforms_of (platforms (run_frames [frame_at down_key 6000] new_GameWindow))
                (temp_platform (run_frames [frame_at down_key 6000] new_GameWindow))) = 8"
    by code_simp+
  from one_temp_platform [of window_with_platform "new_Platform 125 152 100 15 AQUA"
      "frame_at down_key 11000" "[frame_at down_key 6000]"]
  show ?thesis using e by simp
qed

text \<open>The window after its constructor has no temporary platform and the last-placed
  timestamp 0, although nothing was placed. As long as every clock reading of the creation
  step is below 5000 ms this stays so, whatever the keys: the first placement is refused
  until the clock reads 5000 ms.\<close>

lemma startup_lockout_step:
  assumes "temp_platform g = None" "temp_platform_last_placed g = 0"
    "ms_cooldown f < platform_cooldown"
  shows "temp_platform (GameWindow_update f g) = None"
    "temp_platform_last_placed (GameWindow_update f g) = 0"
proof -
  from assms(2,3) have "\<not> platform_cooldown \<le> ms_cooldown f - temp_platform_last_placed g"
    by simp
  then have "place_temp_platform f g = g\<lparr>down_pressed_last_frame := KB_DOWN (input f)\<rparr>"
    by (intro place_temp_platform_noop) simp
  with assms(1,2) show "temp_platform (GameWindow_update f g) = None"
    "temp_platform_last_placed (GameWindow_update f g) = 0"
    by (simp_all add: GameWindow_update_temp expire_temp_platform_def)
qed

lemma startup_lockout:
  "temp_platform g = None \<Longrightarrow> temp_platform_last_placed g = 0 \<Longrightarrow>
   \<forall>fr \<in> set fs. ms_cooldown fr < platform_cooldown \<Longrightarrow>
     temp_platform (run_frames fs g) = None \<and> temp_platform_last_placed (run_frames fs g) = 0"
  by (induction fs arbitrary: g) (simp_all add: startup_lockout_step)

text \<open>
  Claim C8, as amended. The creation step (lines 182-200) creates a temporary platform
  exactly when the create key is held in this frame and was not held in the previous one, no
  temporary platform exists, and the clock reading minus \<open>temp_platform_last_placed\<close> is at
  least 5000 ms in unsigned arithmetic, which is the elapsed time as long as the clock has
  not wrapped. \<open>temp_platform_last_placed\<close> is the time the previous placement began, and 0
  before the first placement: from the constructor, as long as the clock reads less than
  5000 ms, no platform is created whatever the keys, although no placement has begun. The
  new platform is 100 by 15, its centre is horizontally the centre of the player, its top
  edge is 2 below the bottom edge of the player, and both timestamps become the current clock
  reading. In every other case the platform and both timestamps stay as they are.
\<close>

theorem temp_platform_creation:
  "(KB_DOWN (input f) \<and> \<not> down_pressed_last_frame g \<and> temp_platform g = None \<and>
    platform_cooldown \<le> ms_cooldown f - temp_platform_last_placed g \<longrightarrow>
      temp_platform (place_temp_platform f g) =
        Some \<lparr>x = x (player g) + width (player g) / 2 - 100 / 2,
              y = y (player g) + height (player g) + 2,
              width = 100, height = 15, color = AQUA\<rparr>
    \<and> temp_platform_created (place_temp_platform f g) = ms_created f
    \<and> temp_platform_last_placed (place_temp_platform f g) = ms_created f)
   \<and> (\<not> (KB_DOWN (input f) \<and> \<not> down_pressed_last_frame g \<and> temp_platform g = None \<and>
         platform_cooldown \<le> ms_cooldown f - temp_platform_last_placed g) \<longrightarrow>
      temp_platform (place_temp_platform f g) = temp_platform g
    \<and> temp_platform_created (place_temp_platform f g) = temp_platform_created g
    \<and> temp_platform_last_placed (place_temp_platform f g) = temp_platform_last_placed g)
   \<and> (unat (temp_platform_last_placed g) \<le> unat (ms_cooldown f) \<longrightarrow>
        (platform_cooldown \<le> ms_cooldown f - temp_platform_last_placed g \<longleftrightarrow>
         5000 \<le> unat (ms_cooldown f) - unat (temp_platform_last_placed g)))
   \<and> down_pressed_last_frame (place_temp_platform f g) = KB_DOWN (input f)
   \<and> player (place_temp_platform f g) = player g
   \<and> temp_platform_last_placed new_GameWindow = 0
   \<and> platform_cooldown = 5000
   \<and> ((\<forall>fr \<in> set fs. ms_cooldown fr < platform_cooldown) \<longrightarrow>
        temp_platform (run_frames fs new_GameWindow) = None
      \<and> temp_platform_last_placed (run_frames fs new_GameWindow) = 0)"
proof -
  let ?c = "KB_DOWN (input f) \<and> \<not> down_pressed_last_frame g \<and> temp_platform g = None \<and>
    platform_cooldown \<le> ms_cooldown f - temp_platform_last_placed g"
  have a: "?c \<longrightarrow> place_temp_platform f g =
     g\<lparr>temp_platform := Some \<lparr>x = x (player g) + width (player g) / 2 - 100 / 2,
                               y = y (player g) + height (player g) + 2,
                               width = 100, height = 15, color = AQUA\<rparr>,
       temp_platform_created := ms_created f,
       temp_platform_last_placed := ms_created f,
       down_pressed_last_frame := True\<rparr>"
    using place_temp_platform_create [of f g] by blast
  have b: "\<not> ?c \<longrightarrow> place_temp_platform f g = g\<lparr>down_pressed_last_frame := KB_DOWN (input f)\<rparr>"
    using place_temp_platform_noop [of f g] by blast
  have c: "unat (temp_platform_last_placed g) \<le> unat (ms_cooldown f) \<longrightarrow>
        (platform_cooldown \<le> ms_cooldown f - temp_platform_last_placed g \<longleftrightarrow>
         5000 \<le> unat (ms_cooldown f) - unat (temp_platform_last_placed g))"
    using elapsed_unat [of "temp_platform_last_placed g" "ms_cooldown f"] by blast
  have d: "temp_platform_last_placed new_GameWindow = 0"
    by (simp add: new_GameWindow_def)
  have k: "platform_cooldown = 5000"
    by (simp add: platform_cooldown_def)
  have l: "(\<forall>fr \<in> set fs. ms_cooldown fr < platform_cooldown) \<longrightarrow>
        temp_platform (run_frames fs new_GameWindow) = None
      \<and> temp_platform_last_placed (run_frames fs new_GameWindow) = 0"
    using startup_lockout [of new_GameWindow fs] by (simp add: new_GameWindow_def)
  have rest: "(unat (temp_platform_last_placed g) \<le> unat (ms_cooldown f) \<longrightarrow>
        (platform_cooldown \<le> ms_cooldown f - temp_platform_last_placed g \<longleftrightarrow>
         5000 \<le> unat (ms_cooldown f) - unat (temp_platform_last_placed g)))
   \<and> temp_platform_last_placed new_GameWindow = 0
   \<and> platform_cooldown = 5000
   \<and> ((\<forall>fr \<in> set fs. ms_cooldown fr < platform_cooldown) \<longrightarrow>
        temp_platform (run_frames fs new_GameWindow) = None
      \<and> temp_platform_last_placed (run_frames fs new_GameWindow) = 0)"
    using c d k l by blast
  show ?thesis
  proof (cases ?c)
    case True
    with a have "place_temp_platform f g =
     g\<lparr>temp_platform := Some \<lparr>x = x (player g) + width (player g) / 2 - 100 / 2,
                               y = y (player g) + height (player g) + 2,
                               width = 100, height = 15, color = AQUA\<rparr>,
       temp_platform_created := ms_created f,
       temp_platform_last_placed := ms_created f,
       down_pressed_last_frame := True\<rparr>" by blast
    then have "temp_platform (place_temp_platform f g) =
        Some \<lparr>x = x (player g) + width (player g) / 2 - 100 / 2,
              y = y (player g) + height (player g) + 2,
              width = 100, height = 15, color = AQUA\<rparr>
      \<and> temp_platform_created (place_temp_platform f g) = ms_created f
      \<and> temp_platform_last_placed (place_temp_platform f g) = ms_created f
      \<and> down_pressed_last_frame (place_temp_platform f g) = KB_DOWN (input f)
      \<and> player (place_temp_platform f g) = player g"
      using True by simp
    with True rest show ?thesis by blast
  next
    case False
    with b have "place_temp_platform f g = g\<lparr>down_pressed_last_frame := KB_DOWN (input f)\<rparr>"
      by blast
    then have "temp_platform (place_temp_platform f g) = temp_platform g
      \<and> temp_platform_created (place_temp_platform f g) = temp_platform_created g
      \<and> temp_platform_last_placed (place_temp_platform f g) = temp_platform_last_placed g
      \<and> down_pressed_last_frame (place_temp_platform f g) = KB_DOWN (input f)
      \<and> player (place_temp_platform f g) = player g"
      by simp
    with False rest show ?thesis by blast
  qed
qed

theorem temp_platform_creation_witness:
  "temp_platform (place_temp_platform (frame_at down_key 6000) new_GameWindow)
     = Some (new_Platform 125 152 100 15 AQUA)
   \<and> temp_platform_created (place_temp_platform (frame_at down_key 6000) new_GameWindow) = 6000
   \<and> temp_platform_last_placed (place_temp_platform (frame_at down_key 6000) new_GameWindow)
       = 6000
   \<and> x (player new_GameWindow) = 150 \<and> y (player new_GameWindow) = 100
   \<and> unat (temp_platform_last_placed new_GameWindow) \<le> unat (ms_cooldown (frame_at down_key 6000))
   \<and> temp_platform (place_temp_platform (frame_at down_key 6000) window_with_platform)
       = temp_platform window_with_platform
   \<and> temp_platform_created (place_temp_platform (frame_at down_key 6000) window_with_platform)
       = 6000
   \<and> ms_cooldown (frame_at no_keys 1000) < platform_cooldown
   \<and> ms_cooldown (frame_at down_key 3000) < platform_cooldown
   \<and> temp_platform (run_frames [frame_at no_keys 1000, frame_at down_key 3000] new_GameWindow)
       = None"
proof -
  have e: "KB_DOWN (input (frame_at down_key 6000))"
    "\<not> down_pressed_last_frame new_GameWindow"
    "temp_platform new_GameWindow = None"
    "platform_cooldown \<le> ms_cooldown (frame_at down_key 6000)
        - temp_platform_last_placed new_GameWindow"
    "x (player new_GameWindow) = 150" "y (player new_GameWindow) = 100"
    "width (player new_GameWindow) = 50" "height (player new_GameWindow) = 50"
    "ms_created (frame_at down_key 6000) = 6000"
    "temp_platform window_with_platform \<noteq> None"
    "temp_platform_created window_with_platform = 6000"
    "unat (temp_platform_last_placed new_GameWindow) \<le> unat (ms_cooldown (frame_at down_key 6000))"
    by code_simp+
  have t: "ms_cooldown (frame_at no_keys 1000) < platform_cooldown"
    "ms_cooldown (frame_at down_key 3000) < platform_cooldown"
    by code_simp+
  then have q: "\<forall>fr \<in> set [frame_at no_keys 1000, frame_at down_key 3000].
      ms_cooldown fr < platform_cooldown"
    by simp
  from temp_platform_creation [of "frame_at down_key 6000" new_GameWindow
      "[frame_at no_keys 1000, frame_at down_key 3000]"] q
  have a: "temp_platform (run_frames [frame_at no_keys 1000, frame_at down_key 3000]
      new_GameWindow) = None"
    by blast
  from temp_platform_creation [of "frame_at down_key 6000" new_GameWindow "[]"]
    temp_platform_creation [of "frame_at down_key 6000" window_with_platform "[]"]
  have b: "temp_platform (place_temp_platform (frame_at down_key 6000) new_GameWindow)
     = Some (new_Platform 125 152 100 15 AQUA)
   \<and> temp_platform_created (place_temp_platform (frame_at down_key 6000) new_GameWindow) = 6000
   \<and> temp_platform_last_placed (place_temp_platform (frame_at down_key 6000) new_GameWindow)
       = 6000
   \<and> temp_platform (place_temp_platform (frame_at down_key 6000) window_with_platform)
       = temp_platform window_with_platform
   \<and> temp_platform_created (place_temp_platform (frame_at down_key 6000) window_with_platform)
       = 6000"
    using e by (simp add: new_Platform_def)
  from a b e t show ?thesis by simp
qed

text \<open>
  The claim as stated fails before the first placement. In the window the constructor
  builds nothing was ever placed, so no placement began less than 5000 ms ago. After one
  frame without a key at clock reading 1000, the create key goes from not held to held at
  clock reading 3000 and no temporary platform is alive: the three conditions of the claim
  hold and yet nothing is created, because line 184 compares the clock with the initial
  timestamp 0.
\<close>

theorem temp_platform_creation_counterexample:
  "temp_platform new_GameWindow = None
   \<and> temp_platform_last_placed new_GameWindow = 0
   \<and> temp_platform (run_frames [frame_at no_keys 1000] new_GameWindow) = None
   \<and> \<not> down_pressed_last_frame (run_frames [frame_at no_keys 1000] new_GameWindow)
   \<and> KB_DOWN (input (frame_at down_key 3000))
   \<and> temp_platform (place_temp_platform (frame_at down_key 3000)
        (run_frames [frame_at no_keys 1000] new_GameWindow)) = None
   \<and> temp_platform (run_frames [frame_at no_keys 1000, frame_at down_key 3000] new_GameWindow)
       = None
   \<and> temp_platform_last_placed
        (run_frames [frame_at no_keys 1000, frame_at down_key 3000] new_GameWindow) = 0"
  by code_simp

section \<open>The landing loop\<close>

lemma land_on_Cons:
  "land_on p nx (plat # rest) (ny, v, g) =
     (if can_land p nx ny plat \<and> v \<ge> 0 then land_on p nx rest (y plat - height p, 0, True)
      else land_on p nx rest (ny, v, g))"
  by (auto simp: can_land_def Let_def)

text \<open>A rising player (negative velocity) passes the loop untouched.\<close>

lemma land_on_rising: "v < 0 \<Longrightarrow> land_on p nx ps (ny, v, g) = (ny, v, g)"
  by (induction ps) (simp_all add: land_on_Cons del: land_on.simps(2))

text \<open>With a velocity that is not negative the loop either finds no platform passing the
  test and changes nothing, or it ends on a platform that passes the test for the first
  tentative position and whose top is the highest (smallest \<open>y\<close>) among all that do.\<close>

lemma land_on_cases:
  assumes "v \<ge> 0" "land_on p nx ps (ny, v, g) = (ny', v', g')"
  shows "((\<forall>q \<in> set ps. \<not> can_land p nx ny q) \<and> ny' = ny \<and> v' = v \<and> g' = g) \<or>
         ((\<exists>q \<in> set ps. can_land p nx ny q \<and> ny' = y q - height p) \<and>
          (\<forall>q \<in> set ps. can_land p nx ny q \<longrightarrow> ny' + height p \<le> y q) \<and> v' = 0 \<and> g')"
  using assms
proof (induction ps arbitrary: ny v g)
  case Nil
  then show ?case by simp
next
  case (Cons a ps)
  show ?case
  proof (cases "can_land p nx ny a")
    case False
    with Cons.prems have "land_on p nx ps (ny, v, g) = (ny', v', g')"
      by (simp add: land_on_Cons del: land_on.simps(2))
    from Cons.IH [OF Cons.prems(1) this] False show ?thesis by auto
  next
    case True
    with Cons.prems have r: "land_on p nx ps (y a - height p, 0, True) = (ny', v', g')"
      by (simp add: land_on_Cons del: land_on.simps(2))
    have z: "(0::real) \<ge> 0" by simp
    from Cons.IH [OF z r] show ?thesis
    proof
      assume h: "(\<forall>q\<in>set ps. \<not> can_land p nx (y a - height p) q) \<and>
        ny' = y a - height p \<and> v' = 0 \<and> g' = True"
      have "ny' + height p \<le> y q" if "q \<in> set ps" "can_land p nx ny q" for q
      proof -
        from h that(1) have "\<not> can_land p nx (y a - height p) q" by blast
        with that(2) h show ?thesis by (simp add: can_land_def)
      qed
      with h True show ?thesis by auto
    next
      assume h: "(\<exists>q\<in>set ps. can_land p nx (y a - height p) q \<and> ny' = y q - height p) \<and>
        (\<forall>q\<in>set ps. can_land p nx (y a - height p) q \<longrightarrow> ny' + height p \<le> y q) \<and>
        v' = 0 \<and> g'"
      then obtain q where q: "q \<in> set ps" "can_land p nx (y a - height p) q"
        "ny' = y q - height p" by blast
      from q(2) True have qa: "y q \<le> y a" and ql: "can_land p nx ny q"
        by (simp_all add: can_land_def)
      have "ny' + height p \<le> y r" if "r \<in> set (a # ps)" "can_land p nx ny r" for r
      proof (cases "can_land p nx (y a - height p) r \<and> r \<in> set ps")
        case True
        with h show ?thesis by blast
      next
        case False
        with that have "r = a \<or> y a < y r" by (auto simp: can_land_def)
        with q(3) qa show ?thesis by auto
      qed
      with q ql h show ?thesis by auto
    qed
  qed
qed

lemma collide_step_rising:
  assumes "velocity_y p < 0"
  shows "collide_step ps tp p = p\<lparr>x := x p + velocity_x p, y := y p + velocity_y p,
     velocity_y := velocity_y p, on_ground := False\<rparr>"
  using assms by (simp add: collide_step_def Let_def land_on_rising)

lemma collide_step_cases:
  assumes "velocity_y p \<ge> 0"
  shows "((\<forall>q \<in> set (all_platforms_of ps tp).
            \<not> can_land p (x p + velocity_x p) (y p + velocity_y p) q) \<and>
          collide_step ps tp p = p\<lparr>x := x p + velocity_x p, y := y p + velocity_y p,
            velocity_y := velocity_y p, on_ground := False\<rparr>) \<or>
         (\<exists>q \<in> set (all_platforms_of ps tp).
            can_land p (x p + velocity_x p) (y p + velocity_y p) q \<and>
            (\<forall>r \<in> set (all_platforms_of ps tp).
               can_land p (x p + velocity_x p) (y p + velocity_y p) r \<longrightarrow> y q \<le> y r) \<and>
            collide_step ps tp p = p\<lparr>x := x p + velocity_x p, y := y q - height p,
              velocity_y := 0, on_ground := True\<rparr>)"
proof -
  obtain ny' v' g' where l: "land_on p (x p + velocity_x p) (all_platforms_of ps tp)
      (y p + velocity_y p, velocity_y p, False) = (ny', v', g')"
    by (metis prod_cases3)
  then have c: "collide_step ps tp p =
      p\<lparr>x := x p + velocity_x p, y := ny', velocity_y := v', on_ground := g'\<rparr>"
    by (simp add: collide_step_def Let_def)
  from land_on_cases [OF assms l] show ?thesis
  proof
    assume "(\<forall>q\<in>set (all_platforms_of ps tp).
        \<not> can_land p (x p + velocity_x p) (y p + velocity_y p) q) \<and>
      ny' = y p + velocity_y p \<and> v' = velocity_y p \<and> g' = False"
    with c show ?thesis by simp
  next
    assume h: "(\<exists>q\<in>set (all_platforms_of ps tp).
        can_land p (x p + velocity_x p) (y p + velocity_y p) q \<and> ny' = y q - height p) \<and>
      (\<forall>q\<in>set (all_platforms_of ps tp).
        can_land p (x p + velocity_x p) (y p + velocity_y p) q \<longrightarrow> ny' + height p \<le> y q) \<and>
      v' = 0 \<and> g'"
    then obtain q where q: "q \<in> set (all_platforms_of ps tp)"
      "can_land p (x p + velocity_x p) (y p + velocity_y p) q" "ny' = y q - height p"
      by blast
    from h q(3) have "\<forall>r \<in> set (all_platforms_of ps tp).
       can_land p (x p + velocity_x p) (y p + velocity_y p) r \<longrightarrow> y q \<le> y r"
      by auto
    with q c h show ?thesis by auto
  qed
qed

section \<open>The falling scenario\<close>

lemma tick_falling:
  assumes "0 \<le> a" "0 \<le> v" "a + v + 1/2 + 50 < 950"
  shows "scenario_tick (falling a v) = falling (a + v + 1/2) (v + 1/2)"
proof -
  have b: "before_collision no_keys (falling a v) = falling a (v + 1/2)"
    by (simp add: before_collision_def gravity_step_def jump_step_def move_step_def
        no_keys_def falling_def scenario_start_def new_Player_def gravity_def Let_def)
  have c: "collide_step [scenario_floor] None (falling a (v + 1/2)) =
      falling (a + v + 1/2) (v + 1/2)"
    using assms
    by (simp add: collide_step_def all_platforms_of_def Let_def falling_def scenario_start_def
        new_Player_def scenario_floor_def new_Platform_def)
  have w: "world_borders (falling (a + v + 1/2) (v + 1/2)) = falling (a + v + 1/2) (v + 1/2)"
    using assms
    by (simp add: world_borders_def Let_def falling_def scenario_start_def new_Player_def)
  have r: "reset_jumps (falling (a + v + 1/2) (v + 1/2)) = falling (a + v + 1/2) (v + 1/2)"
    by (simp add: reset_jumps_def falling_def scenario_start_def new_Player_def)
  show ?thesis
    unfolding scenario_tick_def Player_update_def
    using b c w r by (simp add: before_collision_def)
qed

lemma tick_landing:
  assumes "0 \<le> v" "a + 50 \<le> 950" "a + v + 1/2 + 50 \<ge> 950"
  shows "scenario_tick (falling a v) = resting"
proof -
  have b: "before_collision no_keys (falling a v) = falling a (v + 1/2)"
    by (simp add: before_collision_def gravity_step_def jump_step_def move_step_def
        no_keys_def falling_def scenario_start_def new_Player_def gravity_def Let_def)
  have c: "collide_step [scenario_floor] None (falling a (v + 1/2)) = resting"
    using assms
    by (simp add: collide_step_def all_platforms_of_def Let_def falling_def scenario_start_def
        new_Player_def scenario_floor_def new_Platform_def resting_def)
  have w: "world_borders resting = resting"
    by (simp add: world_borders_def Let_def resting_def scenario_start_def new_Player_def)
  have r: "reset_jumps resting = resting"
    by (simp add: reset_jumps_def resting_def scenario_start_def new_Player_def)
  show ?thesis
    unfolding scenario_tick_def Player_update_def
    using b c w r by (simp add: before_collision_def)
qed

lemma tick_resting: "scenario_tick resting = resting"
proof -
  have b: "before_collision no_keys resting = resting\<lparr>velocity_y := 1/2\<rparr>"
    by (simp add: before_collision_def gravity_step_def jump_step_def move_step_def
        no_keys_def resting_def scenario_start_def new_Player_def gravity_def Let_def)
  have c: "collide_step [scenario_floor] None (resting\<lparr>velocity_y := 1/2\<rparr>) = resting"
    by (simp add: collide_step_def all_platforms_of_def Let_def scenario_start_def
        new_Player_def scenario_floor_def new_Platform_def resting_def)
  have w: "world_borders resting = resting"
    by (simp add: world_borders_def Let_def resting_def scenario_start_def new_Player_def)
  have r: "reset_jumps resting = resting"
    by (simp add: reset_jumps_def resting_def scenario_start_def new_Player_def)
  show ?thesis
    unfolding scenario_tick_def Player_update_def
    using b c w r by (simp add: before_collision_def)
qed

lemma scenario_after_Suc: "scenario_after (Suc n) = scenario_tick (scenario_after n)"
  by (simp add: scenario_after_def)

text \<open>For 56 ticks the player falls freely: after \<open>n\<close> ticks its velocity is \<open>n / 2\<close> and it
  has fallen \<open>n (n + 1) / 4\<close>.\<close>

lemma fall_bound:
  assumes "n \<le> 55" shows "real (n * (n + 1)) / 4 + real n / 2 + 1/2 + 150 < 950"
proof -
  from assms have "n * (n + 1) \<le> 55 * 56" by (intro mult_mono) simp_all
  then have "real (n * (n + 1)) \<le> real (55 * 56)" by (simp only: of_nat_le_iff)
  then have "real (n * (n + 1)) \<le> 3080" by simp
  moreover from assms have "real n \<le> 55" by simp
  ultimately show ?thesis by linarith
qed

lemma scenario_falling:
  "n \<le> 56 \<Longrightarrow> scenario_after n = falling (100 + real (n * (n + 1)) / 4) (real n / 2)"
proof (induction n)
  case 0
  show ?case by (simp add: scenario_after_def falling_def scenario_start_def new_Player_def)
next
  case (Suc n)
  then have n: "n \<le> 55" by simp
  with Suc have "scenario_after n = falling (100 + real (n * (n + 1)) / 4) (real n / 2)"
    by simp
  moreover have "scenario_tick (falling (100 + real (n * (n + 1)) / 4) (real n / 2)) =
      falling (100 + real (n * (n + 1)) / 4 + real n / 2 + 1/2) (real n / 2 + 1/2)"
    using fall_bound [OF n] by (intro tick_falling) simp_all
  moreover have "100 + real (n * (n + 1)) / 4 + real n / 2 + 1/2 =
      100 + real (Suc n * (Suc n + 1)) / 4"
    by (simp add: field_simps)
  moreover have "real n / 2 + 1/2 = real (Suc n) / 2" by (simp add: field_simps)
  ultimately show ?case by (simp add: scenario_after_Suc)
qed

lemma scenario_lands: "scenario_after 57 = resting"
proof -
  have "scenario_after 56 = falling 898 28"
    using scenario_falling [of 56] by simp
  moreover have "scenario_tick (falling 898 28) = resting"
    by (rule tick_landing) simp_all
  moreover have "(57::nat) = Suc 56" by simp
  ultimately show ?thesis by (simp only: scenario_after_Suc)
qed

lemma scenario_rests: "57 \<le> n \<Longrightarrow> scenario_after n = resting"
proof (induction n)
  case 0
  then show ?case by simp
next
  case (Suc n)
  show ?case
  proof (cases "Suc n = 57")
    case True
    then show ?thesis using scenario_lands by simp
  next
    case False
    with Suc.prems have "57 \<le> n" by simp
    with Suc.IH show ?thesis by (simp add: scenario_after_Suc tick_resting)
  qed
qed

lemma scenario_summary:
  "y (scenario_after n) \<le> 900
   \<and> height (scenario_after n) = 50
   \<and> (n < 57 \<longrightarrow> velocity_y (scenario_after n) = real n / 2 \<and> \<not> on_ground (scenario_after n)
        \<and> y (scenario_after n) < 900)
   \<and> (57 \<le> n \<longrightarrow> y (scenario_after n) + height (scenario_after n) = 950
        \<and> velocity_y (scenario_after n) = 0 \<and> on_ground (scenario_after n))"
proof (cases "n < 57")
  case True
  then have n: "n \<le> 56" by simp
  then have "n * (n + 1) \<le> 56 * 57" by (intro mult_mono) simp_all
  then have "real (n * (n + 1)) \<le> real (56 * 57)" by (simp only: of_nat_le_iff)
  then have "real (n * (n + 1)) / 4 \<le> 798" by simp
  with True scenario_falling [OF n] show ?thesis
    by (simp add: falling_def scenario_start_def new_Player_def)
next
  case False
  then have "57 \<le> n" by simp
  from scenario_rests [OF this] False show ?thesis
    by (simp add: resting_def scenario_start_def new_Player_def)
qed

section \<open>The world borders\<close>

lemma Player_update_eq:
  "Player_update inp ps tp p = reset_jumps (world_borders (after_collision inp ps tp p))"
  by (simp add: Player_update_def after_collision_def before_collision_def)

lemma before_collision_fields:
  "x (before_collision inp p) = x p"
  "y (before_collision inp p) = y p"
  "width (before_collision inp p) = width p"
  "height (before_collision inp p) = height p"
  "world_width (before_collision inp p) = world_width p"
  "world_height (before_collision inp p) = world_height p"
  by (simp_all add: before_collision_def pre_fields)

lemma after_collision_fields:
  "width (after_collision inp ps tp p) = width p"
  "height (after_collision inp ps tp p) = height p"
  "world_width (after_collision inp ps tp p) = world_width p"
  "world_height (after_collision inp ps tp p) = world_height p"
  by (simp_all add: after_collision_def collide_step_fields before_collision_fields)

lemma world_borders_ceiling:
  assumes "height p \<le> world_height p" "y p < 0"
  shows "y (world_borders p) = 0" "velocity_y (world_borders p) = velocity_y p"
    "on_ground (world_borders p) = on_ground p"
  using assms by (simp_all add: world_borders_def Let_def)

lemma world_borders_floor:
  assumes "y p + height p > world_height p"
  shows "y (world_borders p) = world_height p - height p" "velocity_y (world_borders p) = 0"
    "on_ground (world_borders p)"
  using assms by (auto simp add: world_borders_def Let_def)

lemma world_borders_no_floor:
  assumes "height p \<le> world_height p" "\<not> y p + height p > world_height p"
  shows "velocity_y (world_borders p) = velocity_y p" "on_ground (world_borders p) = on_ground p"
  using assms by (auto simp add: world_borders_def Let_def)

text \<open>A player that starts inside the world and is above the top border after the collision
  phase did not land: it is still rising.\<close>

lemma above_ceiling_rising:
  assumes "0 \<le> y p" "y (after_collision inp ps tp p) < 0"
  shows "velocity_y (after_collision inp ps tp p) = velocity_y (before_collision inp p)"
    "velocity_y (before_collision inp p) < 0" "\<not> on_ground (after_collision inp ps tp p)"
proof -
  let ?q = "before_collision inp p"
  have neg: "velocity_y ?q < 0"
  proof (rule ccontr)
    assume "\<not> velocity_y ?q < 0"
    then have v: "velocity_y ?q \<ge> 0" by simp
    from collide_step_cases [OF v, of ps tp] assms v show False
      by (auto simp: after_collision_def can_land_def before_collision_fields)
  qed
  then show "velocity_y ?q < 0" .
  from neg show "velocity_y (after_collision inp ps tp p) = velocity_y ?q"
    "\<not> on_ground (after_collision inp ps tp p)"
    by (simp_all add: after_collision_def collide_step_rising)
qed

text \<open>
  Claim C10. The top border and the bottom border are treated differently. In a tick in
  which the \<open>y\<close> committed after the collision loop is negative, the update ends with
  \<open>y = 0\<close>, while \<open>velocity_y\<close> and \<open>on_ground\<close> stay as the collision phase left them; for a
  player that was inside the world before the tick this velocity is the negative one of the
  rise, \<open>on_ground\<close> is false and the jump counter is not reset. Only the bottom border
  (\<open>y + height > world_height\<close>) sets \<open>velocity_y\<close> to 0 and \<open>on_ground\<close> to true; when it
  does not apply, the borders change neither. The player is not higher than the world
  (50 against 1000 in the game).
\<close>

theorem ceiling_clamp_asymmetric:
  "height p \<le> world_height p \<longrightarrow>
     (y (after_collision inp ps tp p) < 0 \<longrightarrow>
        y (Player_update inp ps tp p) = 0
      \<and> velocity_y (Player_update inp ps tp p) = velocity_y (after_collision inp ps tp p)
      \<and> on_ground (Player_update inp ps tp p) = on_ground (after_collision inp ps tp p))
   \<and> (0 \<le> y p \<and> y (after_collision inp ps tp p) < 0 \<longrightarrow>
        velocity_y (Player_update inp ps tp p) = velocity_y (before_collision inp p)
      \<and> velocity_y (Player_update inp ps tp p) < 0
      \<and> \<not> on_ground (Player_update inp ps tp p)
      \<and> jumps_available (Player_update inp ps tp p) = jumps_available (jump_step inp p))
   \<and> (y (after_collision inp ps tp p) + height p > world_height p \<longrightarrow>
        y (Player_update inp ps tp p) = world_height p - height p
      \<and> velocity_y (Player_update inp ps tp p) = 0
      \<and> on_ground (Player_update inp ps tp p))
   \<and> (\<not> y (after_collision inp ps tp p) + height p > world_height p \<longrightarrow>
        velocity_y (Player_update inp ps tp p) = velocity_y (after_collision inp ps tp p)
      \<and> on_ground (Player_update inp ps tp p) = on_ground (after_collision inp ps tp p))"
proof
  let ?a = "after_collision inp ps tp p"
  assume h: "height p \<le> world_height p"
  then have ha: "height ?a \<le> world_height ?a" by (simp add: after_collision_fields)
  have c1: "y (Player_update inp ps tp p) = 0
      \<and> velocity_y (Player_update inp ps tp p) = velocity_y ?a
      \<and> on_ground (Player_update inp ps tp p) = on_ground ?a" if "y ?a < 0"
    using world_borders_ceiling [OF ha that]
    by (simp add: Player_update_eq reset_jumps_fields)
  have c2: "velocity_y (Player_update inp ps tp p) = velocity_y (before_collision inp p)
      \<and> velocity_y (Player_update inp ps tp p) < 0
      \<and> \<not> on_ground (Player_update inp ps tp p)
      \<and> jumps_available (Player_update inp ps tp p) = jumps_available (jump_step inp p)"
    if "0 \<le> y p" "y ?a < 0"
  proof -
    have "jumps_available (world_borders ?a) = jumps_available (jump_step inp p)"
      by (simp add: world_borders_fields after_collision_def collide_step_fields
          before_collision_def gravity_step_def jump_step_def move_step_def Let_def)
    moreover have "\<not> on_ground (world_borders ?a)"
      using c1 [OF that(2)] above_ceiling_rising(3) [OF that]
      by (simp add: Player_update_eq reset_jumps_fields)
    ultimately show ?thesis
      using c1 [OF that(2)] above_ceiling_rising [OF that]
      by (simp add: Player_update_eq reset_jumps_def)
  qed
  have c3: "y (Player_update inp ps tp p) = world_height p - height p
      \<and> velocity_y (Player_update inp ps tp p) = 0
      \<and> on_ground (Player_update inp ps tp p)" if "y ?a + height p > world_height p"
  proof -
    from that have "y ?a + height ?a > world_height ?a" by (simp add: after_collision_fields)
    from world_borders_floor [OF this] show ?thesis
      by (simp add: Player_update_eq reset_jumps_fields after_collision_fields)
  qed
  have c4: "velocity_y (Player_update inp ps tp p) = velocity_y ?a
      \<and> on_ground (Player_update inp ps tp p) = on_ground ?a"
    if "\<not> y ?a + height p > world_height p"
  proof -
    from that have "\<not> y ?a + height ?a > world_height ?a" by (simp add: after_collision_fields)
    from world_borders_no_floor [OF ha this] show ?thesis
      by (simp add: Player_update_eq reset_jumps_fields)
  qed
  from c1 c2 c3 c4
  show "(y ?a < 0 \<longrightarrow>
        y (Player_update inp ps tp p) = 0
      \<and> velocity_y (Player_update inp ps tp p) = velocity_y ?a
      \<and> on_ground (Player_update inp ps tp p) = on_ground ?a)
   \<and> (0 \<le> y p \<and> y ?a < 0 \<longrightarrow>
        velocity_y (Player_update inp ps tp p) = velocity_y (before_collision inp p)
      \<and> velocity_y (Player_update inp ps tp p) < 0
      \<and> \<not> on_ground (Player_update inp ps tp p)
      \<and> jumps_available (Player_update inp ps tp p) = jumps_available (jump_step inp p))
   \<and> (y ?a + height p > world_height p \<longrightarrow>
        y (Player_update inp ps tp p) = world_height p - height p
      \<and> velocity_y (Player_update inp ps tp p) = 0
      \<and> on_ground (Player_update inp ps tp p))
   \<and> (\<not> y ?a + height p > world_height p \<longrightarrow>
        velocity_y (Player_update inp ps tp p) = velocity_y ?a
      \<and> on_ground (Player_update inp ps tp p) = on_ground ?a)"
    by blast
qed

theorem ceiling_clamp_asymmetric_witness:
  "height player_near_ceiling \<le> world_height player_near_ceiling
   \<and> 0 \<le> y player_near_ceiling
   \<and> y (after_collision up_key (platforms new_GameWindow) None player_near_ceiling) < 0
   \<and> y (Player_update up_key (platforms new_GameWindow) None player_near_ceiling) = 0
   \<and> velocity_y (Player_update up_key (platforms new_GameWindow) None player_near_ceiling) = - 9.5
   \<and> \<not> on_ground (Player_update up_key (platforms new_GameWindow) None player_near_ceiling)
   \<and> height player_near_floor \<le> world_height player_near_floor
   \<and> y (after_collision no_keys [] None player_near_floor) + height player_near_floor
        > world_height player_near_floor
   \<and> y (Player_update no_keys [] None player_near_floor) = 950
   \<and> velocity_y (Player_update no_keys [] None player_near_floor) = 0
   \<and> on_ground (Player_update no_keys [] None player_near_floor)"
proof -
  have e: "height player_near_ceiling \<le> world_height player_near_ceiling"
    "0 \<le> y player_near_ceiling"
    "y (after_collision up_key (platforms new_GameWindow) None player_near_ceiling) < 0"
    "velocity_y (before_collision up_key player_near_ceiling) = - 9.5"
    "height player_near_floor \<le> world_height player_near_floor"
    "y (after_collision no_keys [] None player_near_floor) + height player_near_floor
        > world_height player_near_floor"
    "world_height player_near_floor - height player_near_floor = 950"
    by code_simp+
  from ceiling_clamp_asymmetric [of player_near_ceiling up_key "platforms new_GameWindow" None]
    e(1,2,3)
  have a: "y (Player_update up_key (platforms new_GameWindow) None player_near_ceiling) = 0
    \<and> velocity_y (Player_update up_key (platforms new_GameWindow) None player_near_ceiling)
        = velocity_y (before_collision up_key player_near_ceiling)
    \<and> \<not> on_ground (Player_update up_key (platforms new_GameWindow) None player_near_ceiling)"
    by blast
  from ceiling_clamp_asymmetric [of player_near_floor no_keys "[]" None] e(5,6)
  have b: "y (Player_update no_keys [] None player_near_floor)
        = world_height player_near_floor - height player_near_floor
    \<and> velocity_y (Player_update no_keys [] None player_near_floor) = 0
    \<and> on_ground (Player_update no_keys [] None player_near_floor)"
    by blast
  from a b e show ?thesis by simp
qed

section \<open>Landing on a platform\<close>

lemma can_land_before_collision:
  "can_land (before_collision inp p) nx ny r = can_land p nx ny r"
  by (simp add: can_land_def before_collision_fields)

lemma world_borders_keeps_landing:
  "velocity_y p = 0 \<Longrightarrow> velocity_y (world_borders p) = 0"
  "on_ground p \<Longrightarrow> on_ground (world_borders p)"
  "0 \<le> y p \<Longrightarrow> y (world_borders p) =
     (if y p + height p > world_height p then world_height p - height p else y p)"
  by (simp_all add: world_borders_def Let_def)

text \<open>When some platform of the snapshot passes the landing test and the velocity after
  gravity is not negative, the collision phase puts the player on the highest platform that
  passes the test.\<close>

lemma after_collision_lands:
  assumes "plat \<in> set (all_platforms_of ps tp)"
    and "velocity_y (before_collision inp p) \<ge> 0"
    and "can_land p (tentative_x inp p) (tentative_y inp p) plat"
  shows "\<exists>q \<in> set (all_platforms_of ps tp).
           can_land p (tentative_x inp p) (tentative_y inp p) q \<and>
           (\<forall>r \<in> set (all_platforms_of ps tp).
              can_land p (tentative_x inp p) (tentative_y inp p) r \<longrightarrow> y q \<le> y r) \<and>
           y (after_collision inp ps tp p) = y q - height p \<and>
           velocity_y (after_collision inp ps tp p) = 0 \<and>
           on_ground (after_collision inp ps tp p)"
proof -
  let ?b = "before_collision inp p"
  from collide_step_cases [OF assms(2), of ps tp]
  show ?thesis
  proof
    assume "(\<forall>q\<in>set (all_platforms_of ps tp).
         \<not> can_land ?b (x ?b + velocity_x ?b) (y ?b + velocity_y ?b) q) \<and>
      collide_step ps tp ?b = ?b\<lparr>x := x ?b + velocity_x ?b, y := y ?b + velocity_y ?b,
         velocity_y := velocity_y ?b, on_ground := False\<rparr>"
    with assms(1,3) have False
      by (auto simp: can_land_before_collision before_collision_fields tentative_x_def
          tentative_y_def)
    then show ?thesis ..
  next
    assume "\<exists>q\<in>set (all_platforms_of ps tp).
       can_land ?b (x ?b + velocity_x ?b) (y ?b + velocity_y ?b) q \<and>
       (\<forall>r\<in>set (all_platforms_of ps tp).
           can_land ?b (x ?b + velocity_x ?b) (y ?b + velocity_y ?b) r \<longrightarrow> y q \<le> y r) \<and>
       collide_step ps tp ?b = ?b\<lparr>x := x ?b + velocity_x ?b, y := y q - height ?b,
         velocity_y := 0, on_ground := True\<rparr>"
    then obtain q where q: "q \<in> set (all_platforms_of ps tp)"
      "can_land ?b (x ?b + velocity_x ?b) (y ?b + velocity_y ?b) q"
      "\<forall>r\<in>set (all_platforms_of ps tp).
           can_land ?b (x ?b + velocity_x ?b) (y ?b + velocity_y ?b) r \<longrightarrow> y q \<le> y r"
      "collide_step ps tp ?b = ?b\<lparr>x := x ?b + velocity_x ?b, y := y q - height ?b,
         velocity_y := 0, on_ground := True\<rparr>"
      by blast
    from q(4) have "y (after_collision inp ps tp p) = y q - height p"
      "velocity_y (after_collision inp ps tp p) = 0" "on_ground (after_collision inp ps tp p)"
      by (simp_all add: after_collision_def before_collision_fields)
    with q(1,2,3) show ?thesis
      by (auto simp: can_land_before_collision before_collision_fields tentative_x_def
          tentative_y_def)
  qed
qed

lemma landing_general:
  assumes "plat \<in> set (all_platforms_of ps tp)"
    and "velocity_y (before_collision inp p) \<ge> 0"
    and "can_land p (tentative_x inp p) (tentative_y inp p) plat"
  shows "velocity_y (Player_update inp ps tp p) = 0"
    and "on_ground (Player_update inp ps tp p)"
    and "0 \<le> y p \<Longrightarrow> y (Player_update inp ps tp p) + height p \<le> y plat"
    and "0 \<le> y p \<Longrightarrow> y plat \<le> world_height p \<Longrightarrow>
         \<forall>r \<in> set (all_platforms_of ps tp).
            can_land p (tentative_x inp p) (tentative_y inp p) r \<longrightarrow> y plat \<le> y r \<Longrightarrow>
         y (Player_update inp ps tp p) + height p = y plat"
proof -
  let ?a = "after_collision inp ps tp p"
  from after_collision_lands [OF assms] obtain q where
    q: "q \<in> set (all_platforms_of ps tp)"
      "can_land p (tentative_x inp p) (tentative_y inp p) q"
      "\<forall>r \<in> set (all_platforms_of ps tp).
          can_land p (tentative_x inp p) (tentative_y inp p) r \<longrightarrow> y q \<le> y r"
      "y ?a = y q - height p" "velocity_y ?a = 0" "on_ground ?a"
    by blast
  show "velocity_y (Player_update inp ps tp p) = 0"
    using world_borders_keeps_landing(1) [OF q(5)]
    by (simp add: Player_update_eq reset_jumps_fields)
  show "on_ground (Player_update inp ps tp p)"
    using world_borders_keeps_landing(2) [OF q(6)]
    by (simp add: Player_update_eq reset_jumps_fields)
  from q(2) have above: "y p + height p \<le> y q" by (simp add: can_land_def)
  from q(3) assms(1,3) have top: "y q \<le> y plat" by blast
  have final: "y (Player_update inp ps tp p) =
      (if y q > world_height p then world_height p - height p else y q - height p)"
    if "0 \<le> y p"
  proof -
    from that above q(4) have "0 \<le> y ?a" by simp
    from world_borders_keeps_landing(3) [OF this] q(4) show ?thesis
      by (simp add: Player_update_eq reset_jumps_fields after_collision_fields)
  qed
  show "y (Player_update inp ps tp p) + height p \<le> y plat" if "0 \<le> y p"
    using final [OF that] top by (simp split: if_splits)
  show "y (Player_update inp ps tp p) + height p = y plat"
    if "0 \<le> y p" "y plat \<le> world_height p"
      "\<forall>r \<in> set (all_platforms_of ps tp).
          can_land p (tentative_x inp p) (tentative_y inp p) r \<longrightarrow> y plat \<le> y r"
  proof -
    from that(3) q(1,2) have "y plat \<le> y q" by blast
    with top have "y q = y plat" by simp
    with final [OF that(1)] that(2) show ?thesis by simp
  qed
qed

text \<open>
  Claim C1, as amended. Take a tick in which the vertical velocity after gravity is not
  negative, and a platform of the snapshot for which the current bottom edge of the player
  is at or above its top edge, the tentative bottom edge is at or below it, and the
  horizontal range at the tentative \<open>x\<close> overlaps the platform's. Then the update ends with
  \<open>velocity_y = 0\<close> and \<open>on_ground\<close> true, and for a player inside the world its bottom is at
  or above the top of that platform. The bottom is exactly the top of that platform when no
  other platform of the snapshot passes the same test with a higher top edge and the top
  edge is not below the world's bottom; among several platforms passing the test the player
  ends on the highest.

  In the scenario (player created at (150, 100), world 2000 by 1000, one platform
  (0, 950, 2000, 50), no key held) the player never has \<open>y\<close> above 900; for the first 56 ticks
  it is in the air with velocity \<open>n / 2\<close> after \<open>n\<close> ticks; tick 57 is the landing tick, and
  from then on its bottom is 950, its velocity 0 and \<open>on_ground\<close> true.
\<close>

theorem landing_on_platform:
  "(plat \<in> set (all_platforms_of ps tp) \<and> velocity_y (before_collision inp p) \<ge> 0 \<and>
    y p + height p \<le> y plat \<and> tentative_y inp p + height p \<ge> y plat \<and>
    tentative_x inp p + width p > x plat \<and> tentative_x inp p < x plat + width plat \<longrightarrow>
      velocity_y (Player_update inp ps tp p) = 0
    \<and> on_ground (Player_update inp ps tp p)
    \<and> (0 \<le> y p \<longrightarrow> y (Player_update inp ps tp p) + height (Player_update inp ps tp p) \<le> y plat)
    \<and> (0 \<le> y p \<and> y plat \<le> world_height p \<and>
        (\<forall>r \<in> set (all_platforms_of ps tp).
            can_land p (tentative_x inp p) (tentative_y inp p) r \<longrightarrow> y plat \<le> y r) \<longrightarrow>
        y (Player_update inp ps tp p) + height (Player_update inp ps tp p) = y plat))
   \<and> y (scenario_after n) \<le> 900
   \<and> height (scenario_after n) = 50
   \<and> (n < 57 \<longrightarrow> velocity_y (scenario_after n) = real n / 2 \<and> \<not> on_ground (scenario_after n)
        \<and> y (scenario_after n) < 900)
   \<and> (57 \<le> n \<longrightarrow> y (scenario_after n) + height (scenario_after n) = 950
        \<and> velocity_y (scenario_after n) = 0 \<and> on_ground (scenario_after n))"
proof -
  have h: "height (Player_update inp ps tp p) = height p"
    by (simp add: Player_update_eq reset_jumps_fields world_borders_fields
        after_collision_fields)
  have g: "velocity_y (Player_update inp ps tp p) = 0
    \<and> on_ground (Player_update inp ps tp p)
    \<and> (0 \<le> y p \<longrightarrow> y (Player_update inp ps tp p) + height (Player_update inp ps tp p) \<le> y plat)
    \<and> (0 \<le> y p \<and> y plat \<le> world_height p \<and>
        (\<forall>r \<in> set (all_platforms_of ps tp).
            can_land p (tentative_x inp p) (tentative_y inp p) r \<longrightarrow> y plat \<le> y r) \<longrightarrow>
        y (Player_update inp ps tp p) + height (Player_update inp ps tp p) = y plat)"
    if m: "plat \<in> set (all_platforms_of ps tp)"
      and v: "velocity_y (before_collision inp p) \<ge> 0"
      and c: "y p + height p \<le> y plat" "tentative_y inp p + height p \<ge> y plat"
        "tentative_x inp p + width p > x plat" "tentative_x inp p < x plat + width plat"
  proof -
    from c have l: "can_land p (tentative_x inp p) (tentative_y inp p) plat"
      by (simp add: can_land_def)
    from landing_general [OF m v l] show ?thesis unfolding h by blast
  qed
  from g scenario_summary [of n] show ?thesis by blast
qed

theorem landing_on_platform_witness:
  "scenario_floor \<in> set (all_platforms_of [scenario_floor] None)
   \<and> velocity_y (before_collision no_keys (falling 898 28)) \<ge> 0
   \<and> y (falling 898 28) + height (falling 898 28) \<le> y scenario_floor
   \<and> tentative_y no_keys (falling 898 28) + height (falling 898 28) \<ge> y scenario_floor
   \<and> tentative_x no_keys (falling 898 28) + width (falling 898 28) > x scenario_floor
   \<and> tentative_x no_keys (falling 898 28) < x scenario_floor + width scenario_floor
   \<and> 0 \<le> y (falling 898 28)
   \<and> y scenario_floor \<le> world_height (falling 898 28)
   \<and> velocity_y (Player_update no_keys [scenario_floor] None (falling 898 28)) = 0
   \<and> on_ground (Player_update no_keys [scenario_floor] None (falling 898 28))
   \<and> y (Player_update no_keys [scenario_floor] None (falling 898 28))
       + height (Player_update no_keys [scenario_floor] None (falling 898 28)) = 950
   \<and> velocity_y (scenario_after 56) = 28 \<and> \<not> on_ground (scenario_after 56)
   \<and> velocity_y (scenario_after 57) = 0 \<and> on_ground (scenario_after 57)
   \<and> y (scenario_after 57) + height (scenario_after 57) = 950"
proof -
  have e: "scenario_floor \<in> set (all_platforms_of [scenario_floor] None)"
    "velocity_y (before_collision no_keys (falling 898 28)) \<ge> 0"
    "y (falling 898 28) + height (falling 898 28) \<le> y scenario_floor"
    "tentative_y no_keys (falling 898 28) + height (falling 898 28) \<ge> y scenario_floor"
    "tentative_x no_keys (falling 898 28) + width (falling 898 28) > x scenario_floor"
    "tentative_x no_keys (falling 898 28) < x scenario_floor + width scenario_floor"
    "0 \<le> y (falling 898 28)"
    "y scenario_floor \<le> world_height (falling 898 28)"
    "y scenario_floor = 950"
    by code_simp+
  have t: "\<forall>r \<in> set (all_platforms_of [scenario_floor] None).
      can_land (falling 898 28) (tentative_x no_keys (falling 898 28))
        (tentative_y no_keys (falling 898 28)) r \<longrightarrow> y scenario_floor \<le> y r"
    by (simp add: all_platforms_of_def)
  from landing_on_platform [of scenario_floor "[scenario_floor]" None no_keys "falling 898 28" 56]
    e t
  have a: "velocity_y (Player_update no_keys [scenario_floor] None (falling 898 28)) = 0
    \<and> on_ground (Player_update no_keys [scenario_floor] None (falling 898 28))
    \<and> y (Player_update no_keys [scenario_floor] None (falling 898 28))
       + height (Player_update no_keys [scenario_floor] None (falling 898 28)) = y scenario_floor
    \<and> velocity_y (scenario_after 56) = real 56 / 2 \<and> \<not> on_ground (scenario_after 56)"
    by simp
  from landing_on_platform [of scenario_floor "[scenario_floor]" None no_keys "falling 898 28" 57]
  have b: "velocity_y (scenario_after 57) = 0 \<and> on_ground (scenario_after 57)
    \<and> y (scenario_after 57) + height (scenario_after 57) = 950"
    by simp
  from a b e show ?thesis by simp
qed

section \<open>The double jump\<close>



















section \<open>The first fall of the game\<close>

text \<open>With no key held the player of the game falls from (150, 100) towards the platform
  (100, 650, 180, 20); no other platform and no obstacle is in its way.\<close>

lemma idle_update_falls:
  assumes "0 \<le> a" "0 \<le> v" "a + v + 1/2 + 50 < 650"
  shows "Player_update no_keys (platforms new_GameWindow) None (player_falling a v) =
     player_falling (a + v + 1/2) (v + 1/2)"
proof -
  have b: "gravity_step (jump_step no_keys (move_step no_keys (player_falling a v))) =
      player_falling a (v + 1/2)"
    by (simp add: gravity_step_def jump_step_def move_step_def no_keys_def player_falling_def
        new_GameWindow_def new_Player_def gravity_def Let_def)
  have c: "collide_step (platforms new_GameWindow) None (player_falling a (v + 1/2)) =
      player_falling (a + v + 1/2) (v + 1/2)"
    using assms
    by (simp add: collide_step_def all_platforms_of_def Let_def player_falling_def
        new_GameWindow_def new_Player_def new_Platform_def)
  have w: "world_borders (player_falling (a + v + 1/2) (v + 1/2)) =
      player_falling (a + v + 1/2) (v + 1/2)"
    using assms
    by (simp add: world_borders_def Let_def player_falling_def new_GameWindow_def
        new_Player_def GameWindow_world_width_def GameWindow_world_height_def)
  have r: "reset_jumps (player_falling (a + v + 1/2) (v + 1/2)) =
      player_falling (a + v + 1/2) (v + 1/2)"
    by (simp add: reset_jumps_def player_falling_def new_GameWindow_def new_Player_def)
  show ?thesis unfolding Player_update_def using b c w r by simp
qed

lemma falling_clear_of_obstacles:
  "obstacle_collision (obstacles new_GameWindow) (player_falling a v) = player_falling a v"
  by (simp add: obstacle_collision_eq rects_overlap_def player_falling_def new_GameWindow_def
      new_Player_def new_Obstacle_def)

lemma idle_frame_falls:
  assumes "0 \<le> a" "0 \<le> v" "a + v + 1/2 + 50 < 650"
  shows "GameWindow_update (frame_at no_keys t) (window_falling a v) =
     window_falling (a + v + 1/2) (v + 1/2)"
proof -
  have p: "place_temp_platform (frame_at no_keys t) (window_falling a v) = window_falling a v"
    by (simp add: place_temp_platform_def frame_at_def no_keys_def window_falling_def
        new_GameWindow_def)
  have e: "expire_temp_platform (frame_at no_keys t) (window_falling a v) = window_falling a v"
    by (simp add: expire_temp_platform_def window_falling_def new_GameWindow_def)
  have f: "input (frame_at no_keys t) = no_keys" by (simp add: frame_at_def)
  have g: "platforms (window_falling a v) = platforms new_GameWindow"
    "obstacles (window_falling a v) = obstacles new_GameWindow"
    "temp_platform (window_falling a v) = None"
    "player (window_falling a v) = player_falling a v"
    by (simp_all add: window_falling_def new_GameWindow_def)
  show ?thesis
    unfolding GameWindow_update_def Let_def p e f g
    by (simp add: idle_update_falls [OF assms] falling_clear_of_obstacles window_falling_def)
qed

lemma run_frames_snoc: "run_frames (fs @ [f]) g = GameWindow_update f (run_frames fs g)"
  by (induction fs arbitrary: g) simp_all

lemma first_fall_bound:
  assumes "n \<le> 43" shows "100 + real (n * (n + 1)) / 4 + real n / 2 + 1/2 + 50 < 650"
proof -
  from assms have "n * (n + 1) \<le> 43 * 44" by (intro mult_mono) simp_all
  then have "real (n * (n + 1)) \<le> real (43 * 44)" by (simp only: of_nat_le_iff)
  then have "real (n * (n + 1)) \<le> 1892" by simp
  moreover from assms have "real n \<le> 43" by simp
  ultimately show ?thesis by linarith
qed

lemma first_fall:
  "n \<le> 44 \<Longrightarrow> run_frames (replicate n (frame_at no_keys t)) new_GameWindow =
     window_falling (100 + real (n * (n + 1)) / 4) (real n / 2)"
proof (induction n)
  case 0
  show ?case
    by (simp add: window_falling_def player_falling_def new_GameWindow_def new_Player_def)
next
  case (Suc n)
  then have n: "n \<le> 43" by simp
  have "replicate (Suc n) (frame_at no_keys t) = replicate n (frame_at no_keys t) @ [frame_at no_keys t]"
    by (simp add: replicate_append_same)
  then have "run_frames (replicate (Suc n) (frame_at no_keys t)) new_GameWindow =
      GameWindow_update (frame_at no_keys t)
        (run_frames (replicate n (frame_at no_keys t)) new_GameWindow)"
    by (simp only: run_frames_snoc)
  also have "\<dots> = GameWindow_update (frame_at no_keys t)
      (window_falling (100 + real (n * (n + 1)) / 4) (real n / 2))"
    using Suc.IH n by simp
  also have "\<dots> = window_falling (100 + real (n * (n + 1)) / 4 + real n / 2 + 1/2)
      (real n / 2 + 1/2)"
    using first_fall_bound [OF n] by (intro idle_frame_falls) simp_all
  also have "100 + real (n * (n + 1)) / 4 + real n / 2 + 1/2 =
      100 + real (Suc n * (Suc n + 1)) / 4"
    by (simp add: field_simps)
  also have "real n / 2 + 1/2 = real (Suc n) / 2" by (simp add: field_simps)
  finally show ?case .
qed

lemma window_above_platform_reached:
  "run_frames (replicate 44 (frame_at no_keys 6000)) new_GameWindow = window_above_platform"
proof -
  have "run_frames (replicate 44 (frame_at no_keys 6000)) new_GameWindow =
      window_falling (100 + real (44 * (44 + 1)) / 4) (real 44 / 2)"
    by (rule first_fall) simp
  then show ?thesis
    by (simp add: window_falling_def window_above_platform_def player_falling_def
        player_above_platform_def)
qed

text \<open>
  The claim as stated fails when two platforms pass the test at different heights, and the
  game reaches such a state. After 44 frames without a key the player is 5 above the static
  platform (100, 650, 180, 20) with velocity 22. In the next frame the create key is pressed:
  the creation step puts the temporary platform at height 647, under the player's feet. The
  static platform satisfies every condition of the claim, yet the update ends with the
  player's bottom at 647, on the temporary platform, not at 650.
\<close>

theorem landing_on_platform_counterexample:
  "run_frames (replicate 44 (frame_at no_keys 6000)) new_GameWindow = window_above_platform
   \<and> player window_above_platform = player_above_platform
   \<and> temp_platform (place_temp_platform (frame_at down_key 6000) window_above_platform)
     = Some (new_Platform 125 647 100 15 AQUA)
   \<and> new_Platform 100 650 180 20 GRAY
       \<in> set (all_platforms_of (platforms new_GameWindow)
               (Some (new_Platform 125 647 100 15 AQUA)))
   \<and> velocity_y (before_collision down_key player_above_platform) \<ge> 0
   \<and> y player_above_platform + height player_above_platform
       \<le> y (new_Platform 100 650 180 20 GRAY)
   \<and> tentative_y down_key player_above_platform + height player_above_platform
       \<ge> y (new_Platform 100 650 180 20 GRAY)
   \<and> tentative_x down_key player_above_platform + width player_above_platform
       > x (new_Platform 100 650 180 20 GRAY)
   \<and> tentative_x down_key player_above_platform
       < x (new_Platform 100 650 180 20 GRAY) + width (new_Platform 100 650 180 20 GRAY)
   \<and> y (Player_update down_key (platforms new_GameWindow)
          (Some (new_Platform 125 647 100 15 AQUA)) player_above_platform)
       + height (Player_update down_key (platforms new_GameWindow)
          (Some (new_Platform 125 647 100 15 AQUA)) player_above_platform) = 647
   \<and> y (new_Platform 100 650 180 20 GRAY) = 650
   \<and> y (player (GameWindow_update (frame_at down_key 6000) window_above_platform)) = 597"
proof -
  have r: "run_frames (replicate 44 (frame_at no_keys 6000)) new_GameWindow
      = window_above_platform"
    by (rule window_above_platform_reached)
  have e: "player window_above_platform = player_above_platform
   \<and> temp_platform (place_temp_platform (frame_at down_key 6000) window_above_platform)
     = Some (new_Platform 125 647 100 15 AQUA)
   \<and> new_Platform 100 650 180 20 GRAY
       \<in> set (all_platforms_of (platforms new_GameWindow)
               (Some (new_Platform 125 647 100 15 AQUA)))
   \<and> velocity_y (before_collision down_key player_above_platform) \<ge> 0
   \<and> y player_above_platform + height player_above_platform
       \<le> y (new_Platform 100 650 180 20 GRAY)
   \<and> tentative_y down_key player_above_platform + height player_above_platform
       \<ge> y (new_Platform 100 650 180 20 GRAY)
   \<and> tentative_x down_key player_above_platform + width player_above_platform
       > x (new_Platform 100 650 180 20 GRAY)
   \<and> tentative_x down_key player_above_platform
       < x (new_Platform 100 650 180 20 GRAY) + width (new_Platform 100 650 180 20 GRAY)
   \<and> y (Player_update down_key (platforms new_GameWindow)
          (Some (new_Platform 125 647 100 15 AQUA)) player_above_platform)
       + height (Player_update down_key (platforms new_GameWindow)
          (Some (new_Platform 125 647 100 15 AQUA)) player_above_platform) = 647
   \<and> y (new_Platform 100 650 180 20 GRAY) = 650
   \<and> y (player (GameWindow_update (frame_at down_key 6000) window_above_platform)) = 597"
    by code_simp
  from r e show ?thesis by (rule conjI)
qed

section \<open>Exactness of the arithmetic on the reachable states\<close>

lemma half_integer_simps:
  "half_integer 0" "half_integer (numeral n)" "half_integer (1/2)" "half_integer (- r) = half_integer r"
  by (simp_all add: half_integer_def)

lemma half_integer_add: "half_integer a \<Longrightarrow> half_integer b \<Longrightarrow> half_integer (a + b)"
  by (simp add: half_integer_def distrib_left)

lemma half_integer_diff: "half_integer a \<Longrightarrow> half_integer b \<Longrightarrow> half_integer (a - b)"
  by (simp add: half_integer_def right_diff_distrib)

lemma build_up_step:
  fixes v h :: real
  assumes "0 \<le> h" "0 < v \<longrightarrow> v * (2 * v + 1) \<le> 2 * h" "0 < v + 1/2"
  shows "(v + 1/2) * (2 * (v + 1/2) + 1) \<le> 2 * (h + (v + 1/2))"
proof (cases "0 < v")
  case True
  with assms(2) have "v * (2 * v + 1) \<le> 2 * h" by simp
  moreover have "(v + 1/2) * (2 * (v + 1/2) + 1) = v * (2 * v + 1) + 2 * v + 1"
    by (simp add: algebra_simps)
  ultimately show ?thesis by simp
next
  case False
  with assms(3) have b: "0 < v + 1/2" "v + 1/2 \<le> 1/2" by simp_all
  then have "2 * (v + 1/2) + 1 \<le> 2" by simp
  with b(1) have "(v + 1/2) * (2 * (v + 1/2) + 1) \<le> (v + 1/2) * 2"
    by (intro mult_left_mono) simp_all
  with assms(1) show ?thesis by simp
qed

lemma velocity_before_collision:
  "velocity_y (before_collision inp p) =
     (if jump_fires inp p then jump_strength else velocity_y p) + gravity"
  "velocity_x (before_collision inp p) =
     (if KB_LEFT inp then - move_speed else 0) + (if KB_RIGHT inp then move_speed else 0)"
  by (simp_all add: before_collision_def gravity_step_def jump_step_def move_step_def
      jump_fires_def Let_def)

lemma exact_before_collision:
  assumes "exact_player p" "0 \<le> y p"
  shows "half_integer (velocity_x (before_collision inp p))"
    and "\<bar>velocity_x (before_collision inp p)\<bar> \<le> 3"
    and "half_integer (velocity_y (before_collision inp p))"
    and "- 10 \<le> velocity_y (before_collision inp p)"
    and "0 < velocity_y (before_collision inp p) \<longrightarrow>
         velocity_y (before_collision inp p) * (2 * velocity_y (before_collision inp p) + 1)
           \<le> 2 * (y p + velocity_y (before_collision inp p))"
proof -
  show "half_integer (velocity_x (before_collision inp p))"
    "\<bar>velocity_x (before_collision inp p)\<bar> \<le> 3"
    by (simp_all add: velocity_before_collision move_speed_def half_integer_simps)
  from assms(1) have v: "half_integer (velocity_y p)" "- 10 \<le> velocity_y p"
    "0 < velocity_y p \<longrightarrow> velocity_y p * (2 * velocity_y p + 1) \<le> 2 * y p"
    by (simp_all add: exact_player_def)
  from v(1) show "half_integer (velocity_y (before_collision inp p))"
    by (simp add: velocity_before_collision jump_strength_def gravity_def half_integer_add
        half_integer_simps)
  from v(2) show "- 10 \<le> velocity_y (before_collision inp p)"
    by (simp add: velocity_before_collision jump_strength_def gravity_def)
  show "0 < velocity_y (before_collision inp p) \<longrightarrow>
         velocity_y (before_collision inp p) * (2 * velocity_y (before_collision inp p) + 1)
           \<le> 2 * (y p + velocity_y (before_collision inp p))"
  proof (cases "jump_fires inp p")
    case True
    then show ?thesis by (simp add: velocity_before_collision jump_strength_def gravity_def)
  next
    case False
    then have e: "velocity_y (before_collision inp p) = velocity_y p + 1/2"
      by (simp add: velocity_before_collision gravity_def)
    show ?thesis unfolding e using build_up_step [OF assms(2) v(3)] by blast
  qed
qed

lemma exact_after_collision:
  assumes e: "exact_player p" and y0: "0 \<le> y p" and h: "half_integer (height p)"
    and s: "\<forall>q \<in> set (all_platforms_of ps tp). half_integer (y q)"
  shows "exact_player (after_collision inp ps tp p)"
proof -
  let ?b = "before_collision inp p"
  note b = exact_before_collision [OF e y0, of inp]
  from e have xy: "half_integer (x p)" "half_integer (y p)" by (simp_all add: exact_player_def)
  have free: "exact_player (?b\<lparr>x := x ?b + velocity_x ?b, y := y ?b + velocity_y ?b,
      velocity_y := velocity_y ?b, on_ground := False\<rparr>)"
    using b xy by (simp add: exact_player_def before_collision_fields half_integer_add)
  show ?thesis
  proof (cases "velocity_y ?b < 0")
    case True
    with free show ?thesis by (simp add: after_collision_def collide_step_rising)
  next
    case False
    then have v: "velocity_y ?b \<ge> 0" by simp
    from collide_step_cases [OF v, of ps tp] show ?thesis
    proof
      assume "(\<forall>q\<in>set (all_platforms_of ps tp).
           \<not> can_land ?b (x ?b + velocity_x ?b) (y ?b + velocity_y ?b) q) \<and>
        collide_step ps tp ?b = ?b\<lparr>x := x ?b + velocity_x ?b, y := y ?b + velocity_y ?b,
           velocity_y := velocity_y ?b, on_ground := False\<rparr>"
      with free show ?thesis by (simp add: after_collision_def)
    next
      assume "\<exists>q\<in>set (all_platforms_of ps tp).
         can_land ?b (x ?b + velocity_x ?b) (y ?b + velocity_y ?b) q \<and>
         (\<forall>r\<in>set (all_platforms_of ps tp).
             can_land ?b (x ?b + velocity_x ?b) (y ?b + velocity_y ?b) r \<longrightarrow> y q \<le> y r) \<and>
         collide_step ps tp ?b = ?b\<lparr>x := x ?b + velocity_x ?b, y := y q - height ?b,
           velocity_y := 0, on_ground := True\<rparr>"
      then obtain q where q: "q \<in> set (all_platforms_of ps tp)"
        "collide_step ps tp ?b = ?b\<lparr>x := x ?b + velocity_x ?b, y := y q - height ?b,
           velocity_y := 0, on_ground := True\<rparr>"
        by blast
      from s q(1) have "half_integer (y q)" by blast
      with b xy h show ?thesis
        by (simp add: after_collision_def q(2) exact_player_def before_collision_fields
            half_integer_add half_integer_diff half_integer_simps)
    qed
  qed
qed

lemma exact_world_borders:
  assumes e: "exact_player p" and w: "half_integer (world_width p - width p)"
    "half_integer (world_height p - height p)"
  shows "exact_player (world_borders p)"
proof -
  have pos: "0 \<le> y p" if "0 < velocity_y p"
  proof -
    from that have "0 < velocity_y p * (2 * velocity_y p + 1)" by (intro mult_pos_pos) simp_all
    moreover from e that have "velocity_y p * (2 * velocity_y p + 1) \<le> 2 * y p"
      by (simp add: exact_player_def)
    ultimately show ?thesis by linarith
  qed
  from e w pos show ?thesis
    by (auto simp: exact_player_def world_borders_def Let_def half_integer_simps)
qed

lemma exact_Player_update:
  assumes "exact_player p" "configured p" "0 \<le> y p"
    and "\<forall>q \<in> set (all_platforms_of ps tp). half_integer (y q)"
  shows "exact_player (Player_update inp ps tp p)"
proof -
  from assms(2) have h: "half_integer (height p)"
    by (simp add: configured_def half_integer_simps)
  have a: "exact_player (after_collision inp ps tp p)"
    using assms(1,3) h assms(4) by (rule exact_after_collision)
  from assms(2) have "half_integer (world_width (after_collision inp ps tp p)
      - width (after_collision inp ps tp p))"
    "half_integer (world_height (after_collision inp ps tp p)
      - height (after_collision inp ps tp p))"
    by (simp_all add: after_collision_fields configured_def half_integer_simps)
  with a have "exact_player (world_borders (after_collision inp ps tp p))"
    by (rule exact_world_borders)
  then show ?thesis by (simp add: Player_update_eq exact_player_def reset_jumps_fields)
qed

lemma exact_obstacle_collision:
  "exact_player p \<Longrightarrow> configured p \<Longrightarrow> exact_player (obstacle_collision os p)"
  by (simp add: obstacle_collision_eq exact_player_def configured_def die_def
      half_integer_simps)

lemma static_platforms_exact: "\<forall>q \<in> set (platforms new_GameWindow). half_integer (y q)"
  by (simp add: new_GameWindow_def new_Platform_def half_integer_simps)

lemma exact_temp_platform:
  assumes "exact_window g"
  shows "exact_window (expire_temp_platform f (place_temp_platform f g))"
proof -
  from assms have i: "configured (player g)" "in_world (player g)"
    "half_integer (x (player g))" "half_integer (y (player g))"
    by (simp_all add: exact_window_def player_inv_def exact_player_def)
  have n: "half_integer (x (player g) + 25 - 50)" "half_integer (y (player g) + 50 + 2)"
    using i(3,4) by (simp_all add: half_integer_add half_integer_diff half_integer_simps)
  from assms i n show ?thesis
    by (auto simp: exact_window_def expire_temp_platform_def place_temp_platform_def Let_def
        new_Platform_def configured_def in_world_def)
qed

lemma exact_GameWindow_update:
  assumes "exact_window g" shows "exact_window (GameWindow_update f g)"
proof -
  let ?g2 = "expire_temp_platform f (place_temp_platform f g)"
  note e2 = exact_temp_platform [OF assms, of f]
  from e2 have p: "exact_player (player ?g2)" "configured (player ?g2)" "0 \<le> y (player ?g2)"
    by (simp_all add: exact_window_def player_inv_def in_world_def)
  from e2 static_platforms_exact
  have s: "\<forall>q \<in> set (all_platforms_of (platforms ?g2) (temp_platform ?g2)). half_integer (y q)"
    by (auto simp: exact_window_def all_platforms_of_def split: option.splits)
  have u: "exact_player (Player_update (input f) (platforms ?g2) (temp_platform ?g2)
      (player ?g2))"
    using p s by (rule exact_Player_update)
  have c: "configured (Player_update (input f) (platforms ?g2) (temp_platform ?g2)
      (player ?g2))"
    using p(2) by (rule Player_update_configured)
  have "exact_player (player (GameWindow_update f g))"
    using exact_obstacle_collision [OF u c]
    by (simp add: GameWindow_update_def Let_def)
  moreover from assms have "player_inv (player (GameWindow_update f g))"
    by (simp add: exact_window_def GameWindow_update_inv)
  moreover from e2 have "platforms (GameWindow_update f g) = platforms new_GameWindow"
    "\<forall>t. temp_platform (GameWindow_update f g) = Some t \<longrightarrow>
        half_integer (x t) \<and> half_integer (y t) \<and> width t = 100 \<and> height t = 15 \<and>
        - 25 \<le> x t \<and> x t \<le> 1925 \<and> 52 \<le> y t \<and> y t \<le> 1002"
    by (simp_all add: exact_window_def GameWindow_update_def Let_def)
  ultimately show ?thesis by (simp add: exact_window_def)
qed

lemma exact_new_GameWindow: "exact_window new_GameWindow"
  using new_GameWindow_inv
  by (simp add: exact_window_def exact_player_def new_GameWindow_def new_Player_def
      half_integer_simps)

lemma exact_run_frames: "exact_window g \<Longrightarrow> exact_window (run_frames fs g)"
  by (induction fs arbitrary: g) (simp_all add: exact_GameWindow_update)

text \<open>In every state the game reaches, the coordinates and velocities of the player are
  multiples of one half between -10 and 2000, and so are the coordinates of the platforms.
  On such values the additions, subtractions and comparisons of the program are exact in
  \<open>double\<close> arithmetic, so the model over \<open>real\<close> computes what the program computes.\<close>

lemma reachable_values_exact:
  "half_integer (x (player (run_frames fs new_GameWindow)))
   \<and> half_integer (y (player (run_frames fs new_GameWindow)))
   \<and> half_integer (velocity_x (player (run_frames fs new_GameWindow)))
   \<and> half_integer (velocity_y (player (run_frames fs new_GameWindow)))
   \<and> \<bar>velocity_x (player (run_frames fs new_GameWindow))\<bar> \<le> 3
   \<and> - 10 \<le> velocity_y (player (run_frames fs new_GameWindow))
   \<and> velocity_y (player (run_frames fs new_GameWindow)) \<le> 31
   \<and> 0 \<le> x (player (run_frames fs new_GameWindow))
   \<and> x (player (run_frames fs new_GameWindow)) \<le> 1950
   \<and> 0 \<le> y (player (run_frames fs new_GameWindow))
   \<and> y (player (run_frames fs new_GameWindow)) \<le> 950"
proof -
  let ?p = "player (run_frames fs new_GameWindow)"
  from exact_run_frames [OF exact_new_GameWindow, of fs]
  have e: "exact_player ?p" and i: "y ?p \<le> 950"
    and b: "0 \<le> x ?p" "x ?p \<le> 1950" "0 \<le> y ?p"
    by (simp_all add: exact_window_def player_inv_def in_world_def configured_def)
  have "velocity_y ?p \<le> 31"
  proof (rule ccontr)
    assume "\<not> velocity_y ?p \<le> 31"
    then have v: "31 < velocity_y ?p" by simp
    then have "31 * 63 < velocity_y ?p * (2 * velocity_y ?p + 1)"
      by (intro mult_strict_mono) simp_all
    moreover from e v have "velocity_y ?p * (2 * velocity_y ?p + 1) \<le> 2 * y ?p"
      by (simp add: exact_player_def)
    ultimately show False using i by linarith
  qed
  with e i b show ?thesis by (simp add: exact_player_def)
qed

end
